theory Spec2Isabelle
  imports Complex_Main "HOL-Library.Product_Lexorder" "HOL-Library.Log_Nat"
begin

section \<open>Common data\<close>

text \<open>
  Documents live in MongoDB collections; a collection is modelled as the list of its
  documents in insertion order. An ObjectId is a natural number, a \<open>Date\<close> is the
  number of milliseconds since the epoch, a JavaScript \<open>Number\<close> that the routes keep
  integral is an \<open>int\<close>, and one that may carry a fraction is the \<open>rat\<close> that the
  double denotes. The averages and percentages of the mood statistics are rounded to
  doubles as IEEE 754 prescribes (\<open>round_double\<close> below); the arithmetic of the game
  routes on such numbers is kept exact.
  A field that may be \<open>undefined\<close> or \<open>null\<close> is an \<open>option\<close>.

  The validation chains of the routes (express-validator) are modelled as predicates on
  the request. A request field that a chain checks with \<open>isInt\<close> is modelled by the
  integer it denotes. Queries by \<open>populate\<close> only join data for display and are left out.
  Except for the mood log routes, where the schema requires a field that the route may
  leave undefined, a \<open>save()\<close> of a document is taken to succeed; a failure of the
  store would end in the handler's \<open>catch\<close> with status 500 and no write.
\<close>

type_synonym objectId = nat
type_synonym date = int

text \<open>
  What a route handler sends: \<open>res.status(c).json({success: true, data: x})\<close> is
  \<open>Success c x\<close> and \<open>res.status(c).json({success: false, message: m})\<close> is
  \<open>Failure c m\<close>.
\<close>

datatype 'a response = Success nat 'a | Failure nat string

text \<open>JavaScript truthiness of a string-valued field: absent, null and the empty string are falsy.\<close>

definition truthy :: "string option \<Rightarrow> bool" where
  "truthy v = (case v of None \<Rightarrow> False | Some s \<Rightarrow> s \<noteq> [])"

text \<open>The \<open>trim()\<close> sanitizer of the validation chains, on ASCII white space.\<close>

definition is_space :: "char \<Rightarrow> bool" where
  "is_space c = (c \<in> set [CHR '' '', CHR 0x09, CHR 0x0A, CHR 0x0B, CHR 0x0C, CHR 0x0D])"

definition trim :: "string \<Rightarrow> string" where
  "trim s = rev (dropWhile is_space (rev (dropWhile is_space s)))"

text \<open>
  \<open>new Date(t).getHours()\<close>: the hour of the day in the server's local time. The
  local-time offset in minutes at an instant is a parameter of the environment.
\<close>

definition getHours :: "(date \<Rightarrow> int) \<Rightarrow> date \<Rightarrow> int" where
  "getHours tz t = ((t div 60000 + tz t) div 60) mod 24"

text \<open>
  Arithmetic on doubles. A finite double is a rational \<open>m * 2 ^ e\<close> with
  \<open>\<bar>m\<bar> < 2 ^ 53\<close>; an operation of the language (\<open>/\<close>, \<open>*\<close>) and the division of
  \<open>$avg\<close> yield the exact result rounded to the nearest double, a tie going to the even
  significand. \<open>binade x\<close> is the exponent of the power of two at or below a positive
  \<open>x\<close>, so that doubles near \<open>x\<close> are \<open>2 ^ (binade x - 52)\<close> apart. Exponents are not
  bounded here: the quantities rounded below (quotients of counts, percentages, averages
  of intensities) are far from the overflow and underflow thresholds of the format.
\<close>

definition pow2 :: "int \<Rightarrow> rat" where
  "pow2 e = 2 powi e"

definition binade :: "rat \<Rightarrow> int" where
  "binade x = (if 1 \<le> x then bitlen \<lfloor>x\<rfloor> - 1 else - bitlen (\<lceil>1 / x\<rceil> - 1))"

definition round_even :: "rat \<Rightarrow> int" where
  "round_even r =
     (let f = \<lfloor>r\<rfloor> in
      if r - of_int f < 1 / 2 then f
      else if r - of_int f > 1 / 2 then f + 1
      else if even f then f else f + 1)"

definition round_double :: "rat \<Rightarrow> rat" where
  "round_double x =
     (if x = 0 then 0
      else let ulp = pow2 (binade \<bar>x\<bar> - 52)
           in sgn x * of_int (round_even (\<bar>x\<bar> / ulp)) * ulp)"

section \<open>Mood logs\<close>

subsection \<open>The MoodLog schema\<close>

record moodContext =
  location :: "string option"
  activity :: "string option"
  weather :: "string option"
  timeOfDay :: "string option"

record previousMood =
  pm_mood :: string
  pm_intensity :: int
  pm_timestamp :: date

record moodLog =
  ml_id :: objectId
  ml_user :: objectId
  ml_mood :: string
  ml_intensity :: int
  ml_detectionMethod :: string
  ml_confidence :: rat
  ml_notes :: "string option"
  ml_context :: moodContext
  ml_triggers :: "string list"
  ml_previousMood :: "previousMood option"
  ml_sessionId :: "string option"
  ml_createdAt :: date

definition mood_enum :: "string list" where
  "mood_enum = [''happy'', ''sad'', ''energetic'', ''calm'', ''anxious'', ''excited'',
     ''melancholic'', ''focused'', ''angry'', ''peaceful'', ''romantic'', ''nostalgic'']"

definition detectionMethod_enum :: "string list" where
  "detectionMethod_enum = [''camera'', ''voice'', ''text'', ''manual'', ''activity'', ''journal'']"

text \<open>\<open>moodLogSchema.pre('save')\<close>: derive \<open>context.timeOfDay\<close> when it is falsy.\<close>

definition pre_save :: "(date \<Rightarrow> int) \<Rightarrow> moodLog \<Rightarrow> moodLog" where
  "pre_save tz this =
     (if \<not> truthy (timeOfDay (ml_context this)) then
        (let hour = getHours tz (ml_createdAt this) in
         if hour \<ge> 5 \<and> hour < 12 then
           this\<lparr>ml_context := (ml_context this)\<lparr>timeOfDay := Some ''morning''\<rparr>\<rparr>
         else if hour \<ge> 12 \<and> hour < 17 then
           this\<lparr>ml_context := (ml_context this)\<lparr>timeOfDay := Some ''afternoon''\<rparr>\<rparr>
         else if hour \<ge> 17 \<and> hour < 21 then
           this\<lparr>ml_context := (ml_context this)\<lparr>timeOfDay := Some ''evening''\<rparr>\<rparr>
         else
           this\<lparr>ml_context := (ml_context this)\<lparr>timeOfDay := Some ''night''\<rparr>\<rparr>)
      else this)"

definition weather_enum :: "string list" where
  "weather_enum = [''sunny'', ''cloudy'', ''rainy'', ''snowy'', ''stormy'', ''foggy'', ''unknown'']"

definition timeOfDay_enum :: "string list" where
  "timeOfDay_enum = [''morning'', ''afternoon'', ''evening'', ''night'']"

definition trigger_enum :: "string list" where
  "trigger_enum = [''work'', ''family'', ''friends'', ''health'', ''money'', ''relationship'',
     ''achievement'', ''loss'', ''stress'', ''exercise'', ''music'', ''nature'', ''other'']"

text \<open>
  The validators that the schema declares on its paths, as \<open>save()\<close> runs them on a
  document. A \<open>required\<close> string fails when it is missing, \<open>null\<close> or empty; \<open>enum\<close>,
  \<open>min\<close>, \<open>max\<close> and \<open>maxlength\<close> check a value that is present. \<open>user\<close> is always
  given by the routes, and \<open>previousMood\<close> and \<open>sessionId\<close> carry no validator.
  Mongoose runs this validation before the \<open>pre('save')\<close> hooks of the schema, so it
  sees \<open>context.timeOfDay\<close> as the route has set it, not as the hook above would.
\<close>

definition schema_validate :: "moodLog \<Rightarrow> bool" where
  "schema_validate d =
     (ml_mood d \<in> set mood_enum \<and>
      1 \<le> ml_intensity d \<and> ml_intensity d \<le> 10 \<and>
      ml_detectionMethod d \<in> set detectionMethod_enum \<and>
      0 \<le> ml_confidence d \<and> ml_confidence d \<le> 1 \<and>
      (case ml_notes d of None \<Rightarrow> True | Some n \<Rightarrow> length n \<le> 500) \<and>
      (case weather (ml_context d) of None \<Rightarrow> True | Some w \<Rightarrow> w \<in> set weather_enum) \<and>
      (case timeOfDay (ml_context d) of None \<Rightarrow> False | Some t \<Rightarrow> t \<in> set timeOfDay_enum) \<and>
      list_all (\<lambda>t. t \<in> set trigger_enum) (ml_triggers d))"

subsection \<open>The routes of \<open>/api/moods\<close>\<close>

text \<open>
  The JSON body of a request. Every field may be absent. The body's \<open>context\<close> is an
  object whose keys carry a string or \<open>null\<close>. The routes read only some of the
  fields; the others are listed because a caller may send them all the same.
\<close>

record moodBody =
  b_mood :: "string option"
  b_intensity :: "int option"
  b_detectionMethod :: "string option"
  b_confidence :: "rat option"
  b_notes :: "string option"
  b_context :: "(string \<rightharpoonup> string option) option"
  b_triggers :: "string list option"
  b_sessionId :: "string option"
  b_previousMood :: "previousMood option"
  b_user :: "objectId option"
  b_createdAt :: "date option"

text \<open>The validation chain of \<open>POST /api/moods\<close>.\<close>

definition valid_notes :: "moodBody \<Rightarrow> bool" where
  "valid_notes b = (case b_notes b of None \<Rightarrow> True | Some n \<Rightarrow> length (trim n) \<le> 500)"

definition valid_log_body :: "moodBody \<Rightarrow> bool" where
  "valid_log_body b =
     ((case b_mood b of None \<Rightarrow> False | Some m \<Rightarrow> m \<in> set mood_enum) \<and>
      (case b_intensity b of None \<Rightarrow> False | Some i \<Rightarrow> 1 \<le> i \<and> i \<le> 10) \<and>
      (case b_detectionMethod b of None \<Rightarrow> False | Some d \<Rightarrow> d \<in> set detectionMethod_enum) \<and>
      (case b_confidence b of None \<Rightarrow> True | Some c \<Rightarrow> 0 \<le> c \<and> c \<le> 1) \<and>
      valid_notes b)"

text \<open>\<open>context.k\<close> on the body's context object: \<open>undefined\<close> and \<open>null\<close> both read as absent.\<close>

definition ctx_field :: "(string \<rightharpoonup> string option) \<Rightarrow> string \<Rightarrow> string option" where
  "ctx_field c k = (case c k of None \<Rightarrow> None | Some v \<Rightarrow> v)"

text \<open>
  \<open>MoodLog.findOne({ user }).sort({ createdAt: -1 }).limit(1)\<close>: the user's logs by
  creation time, latest first; logs with equal creation times stay in insertion order.
\<close>

definition findOne_latest :: "objectId \<Rightarrow> moodLog list \<Rightarrow> moodLog option" where
  "findOne_latest uid logs =
     (case sort_key (\<lambda>d. - ml_createdAt d) (filter (\<lambda>d. ml_user d = uid) logs) of
        [] \<Rightarrow> None
      | d # _ \<Rightarrow> Some d)"

text \<open>The ObjectId of a new document is one that no document of the collection has.\<close>

definition new_id :: "objectId list \<Rightarrow> objectId" where
  "new_id ids = Suc (fold max ids 0)"

text \<open>
  \<open>POST /api/moods\<close>. \<open>now\<close> is \<open>Date.now()\<close>, the default of \<open>createdAt\<close>.
  \<open>save()\<close> belongs to Mongoose: it checks the document against the schema's
  validators (\<open>required\<close>, \<open>enum\<close>, \<open>min\<close>, \<open>max\<close>, \<open>maxlength\<close>), and when the check
  fails it throws, so that the handler's \<open>catch\<close> answers 500 and nothing is written.
  The outcome of that check on the document handed to \<open>save()\<close> is the parameter
  \<open>validate\<close>, which for this schema is \<open>schema_validate\<close>; the schema's own save hook
  and the write follow it.
\<close>

definition post_mood ::
  "(moodLog \<Rightarrow> bool) \<Rightarrow> (date \<Rightarrow> int) \<Rightarrow> date \<Rightarrow> moodLog list \<Rightarrow> objectId \<Rightarrow> moodBody \<Rightarrow>
     moodLog response \<times> moodLog list" where
  "post_mood validate tz now logs uid b =
     (if \<not> valid_log_body b then (Failure 400 ''Validation failed'', logs)
      else
        case (b_mood b, b_intensity b, b_detectionMethod b) of
          (Some mood, Some intensity, Some detectionMethod) \<Rightarrow>
            (let confidence = (case b_confidence b of None \<Rightarrow> 1 | Some c \<Rightarrow> c);
                 notes = map_option trim (b_notes b);
                 context = (case b_context b of None \<Rightarrow> Map.empty | Some c \<Rightarrow> c);
                 triggers = (case b_triggers b of None \<Rightarrow> [] | Some t \<Rightarrow> t);
                 previous = findOne_latest uid logs;
                 moodLog = \<lparr>
                   ml_id = new_id (map ml_id logs),
                   ml_user = uid,
                   ml_mood = mood,
                   ml_intensity = intensity,
                   ml_detectionMethod = detectionMethod,
                   ml_confidence = confidence,
                   ml_notes = notes,
                   ml_context = \<lparr>
                     location = ctx_field context ''location'',
                     activity = ctx_field context ''activity'',
                     weather = (if truthy (ctx_field context ''weather'')
                                then ctx_field context ''weather'' else Some ''unknown''),
                     timeOfDay = ctx_field context ''timeOfDay'' \<rparr>,
                   ml_triggers = triggers,
                   ml_previousMood = (case previous of
                       Some p \<Rightarrow> Some \<lparr> pm_mood = ml_mood p, pm_intensity = ml_intensity p,
                                        pm_timestamp = ml_createdAt p \<rparr>
                     | None \<Rightarrow> None),
                   ml_sessionId = b_sessionId b,
                   ml_createdAt = now \<rparr>
             in if \<not> validate moodLog then
                  (Failure 500 ''Server error logging mood'', logs)
                else
                  (let saved = pre_save tz moodLog
                   in (Success 201 saved, logs @ [saved])))
        | _ \<Rightarrow> (Failure 400 ''Validation failed'', logs))"

text \<open>\<open>{ ...moodLog.context, ...req.body.context }\<close>: a key of the body replaces the stored field.\<close>

definition merge_context :: "moodContext \<Rightarrow> (string \<rightharpoonup> string option) \<Rightarrow> moodContext" where
  "merge_context old c = \<lparr>
     location = (case c ''location'' of None \<Rightarrow> location old | Some v \<Rightarrow> v),
     activity = (case c ''activity'' of None \<Rightarrow> activity old | Some v \<Rightarrow> v),
     weather = (case c ''weather'' of None \<Rightarrow> weather old | Some v \<Rightarrow> v),
     timeOfDay = (case c ''timeOfDay'' of None \<Rightarrow> timeOfDay old | Some v \<Rightarrow> v) \<rparr>"

text \<open>
  \<open>PUT /api/moods/:id\<close>. The loop over \<open>allowedUpdates = ['notes', 'context', 'triggers']\<close>
  is unrolled; \<open>Object.assign\<close> then \<open>save()\<close> (Mongoose's check as above, then the save
  hook again) write the document back under its \<open>_id\<close>.
\<close>

definition put_mood ::
  "(moodLog \<Rightarrow> bool) \<Rightarrow> (date \<Rightarrow> int) \<Rightarrow> moodLog list \<Rightarrow> objectId \<Rightarrow> objectId \<Rightarrow> moodBody \<Rightarrow>
     moodLog response \<times> moodLog list" where
  "put_mood validate tz logs uid i b =
     (if \<not> valid_notes b then (Failure 400 ''Validation failed'', logs)
      else
        case find (\<lambda>d. ml_id d = i) logs of
          None \<Rightarrow> (Failure 404 ''Mood log not found'', logs)
        | Some moodLog \<Rightarrow>
            if ml_user moodLog \<noteq> uid then
              (Failure 403 ''Access denied. You can only update your own mood logs'', logs)
            else
              (let u1 = (case b_notes b of None \<Rightarrow> moodLog
                         | Some n \<Rightarrow> moodLog\<lparr>ml_notes := Some (trim n)\<rparr>);
                   u2 = (case b_context b of None \<Rightarrow> u1
                         | Some c \<Rightarrow> u1\<lparr>ml_context := merge_context (ml_context moodLog) c\<rparr>);
                   u3 = (case b_triggers b of None \<Rightarrow> u2
                         | Some t \<Rightarrow> u2\<lparr>ml_triggers := t\<rparr>)
               in if \<not> validate u3 then
                    (Failure 500 ''Server error updating mood log'', logs)
                  else
                    (let saved = pre_save tz u3
                     in (Success 200 saved, map (\<lambda>d. if ml_id d = i then saved else d) logs))))"

section \<open>Songs\<close>

text \<open>
  The Song schema, with the fields the routes below read or write. (\<open>album\<close>,
  \<open>language\<close>, \<open>duration\<close>, \<open>filePath\<close> and \<open>coverImage\<close> are carried along
  unchanged by these routes and are left out.)
\<close>

record song =
  song_id :: objectId
  title :: string
  artist :: string
  genre :: string
  moodTags :: "string list"
  tempo :: string
  energy :: rat
  valence :: rat
  uploadedBy :: objectId
  song_isPublic :: bool
  song_playCount :: int
  likes :: int
  song_createdAt :: date
  song_updatedAt :: date

definition song_mood_enum :: "string list" where
  "song_mood_enum = [''happy'', ''sad'', ''energetic'', ''calm'', ''anxious'', ''excited'',
     ''melancholic'', ''focused'', ''romantic'', ''angry'', ''peaceful'', ''uplifting'',
     ''nostalgic'', ''mysterious'', ''dramatic'']"

definition genre_enum :: "string list" where
  "genre_enum = [''pop'', ''rock'', ''jazz'', ''classical'', ''electronic'', ''hip-hop'',
     ''country'', ''folk'', ''blues'', ''reggae'', ''ambient'', ''indie'', ''alternative'',
     ''metal'', ''punk'', ''r&b'', ''soul'', ''funk'', ''disco'', ''house'', ''techno'',
     ''trance'', ''dubstep'', ''other'']"

definition tempo_enum :: "string list" where
  "tempo_enum = [''slow'', ''medium'', ''fast'']"

subsection \<open>\<open>GET /api/songs/recommendations\<close>\<close>

text \<open>
  The query string. \<open>energy\<close>, \<open>valence\<close> and \<open>limit\<close> arrive as strings that the
  chain checks with \<open>isInt\<close> and the handler reads with \<open>parseInt\<close>; they are modelled
  by the integer read.
\<close>

record recQuery =
  q_mood :: "string option"
  q_energy :: "int option"
  q_valence :: "int option"
  q_limit :: "int option"

definition valid_rec_query :: "recQuery \<Rightarrow> bool" where
  "valid_rec_query q =
     ((case q_mood q of None \<Rightarrow> True | Some m \<Rightarrow> m \<in> set song_mood_enum) \<and>
      (case q_energy q of None \<Rightarrow> True | Some e \<Rightarrow> 1 \<le> e \<and> e \<le> 10) \<and>
      (case q_valence q of None \<Rightarrow> True | Some v \<Rightarrow> 1 \<le> v \<and> v \<le> 10) \<and>
      (case q_limit q of None \<Rightarrow> True | Some l \<Rightarrow> 1 \<le> l \<and> l \<le> 50))"

text \<open>The filter object that the handler builds, as a predicate on a song.\<close>

definition rec_filter :: "objectId \<Rightarrow> recQuery \<Rightarrow> song \<Rightarrow> bool" where
  "rec_filter uid q s =
     ((song_isPublic s \<or> uploadedBy s = uid) \<and>
      (case q_mood q of
         None \<Rightarrow> True
       | Some mood \<Rightarrow> if mood \<noteq> [] then mood \<in> set (moodTags s) else True) \<and>
      (case q_energy q of
         None \<Rightarrow> True
       | Some energyValue \<Rightarrow>
           of_int (max 1 (energyValue - 2)) \<le> energy s \<and>
           energy s \<le> of_int (min 10 (energyValue + 2))) \<and>
      (case q_valence q of
         None \<Rightarrow> True
       | Some valenceValue \<Rightarrow>
           of_int (max 1 (valenceValue - 2)) \<le> valence s \<and>
           valence s \<le> of_int (min 10 (valenceValue + 2))))"

text \<open>
  \<open>Song.find(filter).sort({ playCount: -1, likes: -1, createdAt: -1 }).limit(n)\<close>.
  (\<open>populate('uploadedBy', ...)\<close> only joins the uploader's name and is not modelled.)
\<close>

definition get_recommendations :: "song list \<Rightarrow> objectId \<Rightarrow> recQuery \<Rightarrow> song list response" where
  "get_recommendations songs uid q =
     (if \<not> valid_rec_query q then Failure 400 ''Validation failed''
      else
        let limit = (case q_limit q of None \<Rightarrow> 20 | Some l \<Rightarrow> l)
        in Success 200
             (take (nat limit)
                (sort_key (\<lambda>s. (- song_playCount s, - likes s, - song_createdAt s))
                   (filter (rec_filter uid q) songs))))"

subsection \<open>\<open>GET /api/songs/:id\<close> and \<open>POST /api/songs/:id/play\<close>\<close>

definition get_song :: "song list \<Rightarrow> objectId \<Rightarrow> objectId \<Rightarrow> song response" where
  "get_song songs uid i =
     (case find (\<lambda>s. song_id s = i) songs of
        None \<Rightarrow> Failure 404 ''Song not found''
      | Some song \<Rightarrow>
          if \<not> song_isPublic song \<and> uploadedBy song \<noteq> uid then
            Failure 403 ''Access denied to this song''
          else Success 200 song)"

text \<open>
  \<open>songSchema.methods.incrementPlayCount\<close>: \<open>this.playCount += 1; return this.save()\<close>,
  where the schema's save hook sets \<open>updatedAt = Date.now()\<close>.
\<close>

definition song_incrementPlayCount :: "date \<Rightarrow> song \<Rightarrow> song" where
  "song_incrementPlayCount now this =
     this\<lparr>song_playCount := song_playCount this + 1, song_updatedAt := now\<rparr>"

definition post_song_play ::
  "date \<Rightarrow> song list \<Rightarrow> objectId \<Rightarrow> objectId \<Rightarrow> int response \<times> song list" where
  "post_song_play now songs uid i =
     (case find (\<lambda>s. song_id s = i) songs of
        None \<Rightarrow> (Failure 404 ''Song not found'', songs)
      | Some song \<Rightarrow>
          (let saved = song_incrementPlayCount now song
           in (Success 200 (song_playCount saved),
               map (\<lambda>s. if song_id s = i then saved else s) songs)))"

subsection \<open>\<open>DELETE /api/songs/:id\<close>\<close>

text \<open>Only the uploader may delete. (The removal of the audio file from disk is not modelled.)\<close>

definition delete_song :: "song list \<Rightarrow> objectId \<Rightarrow> objectId \<Rightarrow> unit response \<times> song list" where
  "delete_song songs uid i =
     (case find (\<lambda>s. song_id s = i) songs of
        None \<Rightarrow> (Failure 404 ''Song not found'', songs)
      | Some song \<Rightarrow>
          if uploadedBy song \<noteq> uid then
            (Failure 403 ''Access denied. You can only delete your own songs'', songs)
          else (Success 200 (), filter (\<lambda>s. song_id s \<noteq> i) songs))"

section \<open>Playlists\<close>

text \<open>
  Modelled from the spec: the Playlist schema (\<open>models/Playlist.js\<close> is not among the
  sources). Its fields are those the spec's data model lists and the routes set:
  name, description, owner, the ordered song references, the \<open>isPublic\<close> and
  \<open>isAutoGenerated\<close> flags, the \<open>generatedFor\<close> record of the filters, the play count
  and the followers.
\<close>

record generatedFor =
  gf_mood :: "string option"
  gf_tempo :: "string option"
  gf_genre :: "string option"

record playlist =
  pl_id :: objectId
  pl_name :: string
  pl_description :: "string option"
  pl_owner :: objectId
  pl_songs :: "objectId list"
  pl_isAutoGenerated :: bool
  pl_generatedFor :: "generatedFor option"
  pl_isPublic :: bool
  pl_playCount :: int
  pl_followers :: "objectId list"

subsection \<open>\<open>GET /api/playlists/auto-generate\<close>\<close>

record genQuery =
  g_mood :: "string option"
  g_tempo :: "string option"
  g_genre :: "string option"
  g_limit :: "int option"

definition auto_mood_enum :: "string list" where
  "auto_mood_enum = [''happy'', ''sad'', ''energetic'', ''calm'', ''anxious'', ''excited'',
     ''melancholic'', ''focused'']"

definition valid_gen_query :: "genQuery \<Rightarrow> bool" where
  "valid_gen_query q =
     ((case g_mood q of None \<Rightarrow> True | Some m \<Rightarrow> m \<in> set auto_mood_enum) \<and>
      (case g_tempo q of None \<Rightarrow> True | Some t \<Rightarrow> t \<in> set tempo_enum) \<and>
      (case g_genre q of None \<Rightarrow> True | Some g \<Rightarrow> g \<in> set genre_enum) \<and>
      (case g_limit q of None \<Rightarrow> True | Some l \<Rightarrow> 5 \<le> l \<and> l \<le> 50))"

definition songFilter :: "objectId \<Rightarrow> genQuery \<Rightarrow> song \<Rightarrow> bool" where
  "songFilter uid q s =
     ((song_isPublic s \<or> uploadedBy s = uid) \<and>
      (case g_mood q of
         None \<Rightarrow> True
       | Some mood \<Rightarrow> if mood \<noteq> [] then mood \<in> set (moodTags s) else True) \<and>
      (case g_tempo q of
         None \<Rightarrow> True
       | Some t \<Rightarrow> if t \<noteq> [] then tempo s = t else True) \<and>
      (case g_genre q of
         None \<Rightarrow> True
       | Some g \<Rightarrow> if g \<noteq> [] then genre s = g else True))"

text \<open>\<open>s.charAt(0).toUpperCase() + s.slice(1)\<close>, on ASCII letters.\<close>

definition toUpperCase :: "char \<Rightarrow> char" where
  "toUpperCase c =
     (let n = (of_char c :: nat) in if 97 \<le> n \<and> n \<le> 122 then char_of (n - 32) else c)"

definition capitalize :: "string \<Rightarrow> string" where
  "capitalize s = (case s of [] \<Rightarrow> [] | c # cs \<Rightarrow> toUpperCase c # cs)"

definition playlistName :: "genQuery \<Rightarrow> string" where
  "playlistName q =
     (let n0 = ''Auto-Generated Playlist'';
          n1 = (case g_mood q of
                  None \<Rightarrow> n0
                | Some mood \<Rightarrow> if mood \<noteq> [] then capitalize mood @ '' Mix'' else n0);
          n2 = (case g_tempo q of
                  None \<Rightarrow> n1
                | Some t \<Rightarrow> if t \<noteq> [] then n1 @ '' ('' @ capitalize t @ '' Tempo)'' else n1);
          n3 = (case g_genre q of
                  None \<Rightarrow> n2
                | Some g \<Rightarrow> if g \<noteq> [] then n2 @ '' - '' @ capitalize g else n2)
      in n3)"

text \<open>
  The handler: find, sort by \<open>{ playCount: -1, likes: -1 }\<close>, limit; 404 when nothing
  matches; otherwise build the playlist from the songs' ids and save it. The playlist
  sent back is the saved one (with its song references populated by the songs found).
\<close>

definition auto_generate ::
  "song list \<Rightarrow> playlist list \<Rightarrow> objectId \<Rightarrow> genQuery \<Rightarrow> playlist response \<times> playlist list" where
  "auto_generate songs playlists uid q =
     (if \<not> valid_gen_query q then (Failure 400 ''Validation failed'', playlists)
      else
        let limit = (case g_limit q of None \<Rightarrow> 20 | Some l \<Rightarrow> l);
            found = take (nat limit)
                      (sort_key (\<lambda>s. (- song_playCount s, - likes s))
                         (filter (songFilter uid q) songs))
        in if length found = 0 then
             (Failure 404 ''No songs found matching the criteria'', playlists)
           else
             (let playlist = \<lparr>
                    pl_id = new_id (map pl_id playlists),
                    pl_name = playlistName q,
                    pl_description =
                      Some ''Automatically generated playlist based on your preferences'',
                    pl_owner = uid,
                    pl_songs = map song_id found,
                    pl_isAutoGenerated = True,
                    pl_generatedFor = Some \<lparr> gf_mood = g_mood q, gf_tempo = g_tempo q,
                                              gf_genre = g_genre q \<rparr>,
                    pl_isPublic = False,
                    pl_playCount = 0,
                    pl_followers = [] \<rparr>
              in (Success 200 playlist, playlists @ [playlist])))"

subsection \<open>\<open>GET /api/playlists/:id\<close> and \<open>POST /api/playlists/:id/play\<close>\<close>

definition get_playlist :: "playlist list \<Rightarrow> objectId \<Rightarrow> objectId \<Rightarrow> playlist response" where
  "get_playlist playlists uid i =
     (case find (\<lambda>p. pl_id p = i) playlists of
        None \<Rightarrow> Failure 404 ''Playlist not found''
      | Some playlist \<Rightarrow>
          if \<not> pl_isPublic playlist \<and> pl_owner playlist \<noteq> uid then
            Failure 403 ''Access denied to this playlist''
          else Success 200 playlist)"

text \<open>
  Modelled from the spec: \<open>playlist.incrementPlayCount()\<close>, a method of the Playlist
  model, which is not among the sources. The spec lists ``increment play count'' among
  the playlist operations; the method is taken to do what its namesakes of the Song and
  Game models do, \<open>this.playCount += 1; return this.save()\<close>.
\<close>

definition playlist_incrementPlayCount :: "playlist \<Rightarrow> playlist" where
  "playlist_incrementPlayCount this = this\<lparr>pl_playCount := pl_playCount this + 1\<rparr>"

definition post_playlist_play ::
  "playlist list \<Rightarrow> objectId \<Rightarrow> objectId \<Rightarrow> int response \<times> playlist list" where
  "post_playlist_play playlists uid i =
     (case find (\<lambda>p. pl_id p = i) playlists of
        None \<Rightarrow> (Failure 404 ''Playlist not found'', playlists)
      | Some playlist \<Rightarrow>
          (let saved = playlist_incrementPlayCount playlist
           in (Success 200 (pl_playCount saved),
               map (\<lambda>p. if pl_id p = i then saved else p) playlists)))"

subsection \<open>\<open>DELETE /api/playlists/:id\<close>\<close>

definition delete_playlist ::
  "playlist list \<Rightarrow> objectId \<Rightarrow> objectId \<Rightarrow> unit response \<times> playlist list" where
  "delete_playlist playlists uid i =
     (case find (\<lambda>p. pl_id p = i) playlists of
        None \<Rightarrow> (Failure 404 ''Playlist not found'', playlists)
      | Some playlist \<Rightarrow>
          if pl_owner playlist \<noteq> uid then
            (Failure 403 ''Access denied. You can only delete your own playlists'', playlists)
          else (Success 200 (), filter (\<lambda>p. pl_id p \<noteq> i) playlists))"

section \<open>Games and game sessions\<close>

text \<open>
  \<open>gameData\<close> is a \<open>Mixed\<close> field: an object from keys to JSON values. The keys that
  the achievement rules read carry booleans and numbers; values of these kinds (and
  \<open>null\<close>) are modelled, an absent key is \<open>None\<close>.
\<close>

datatype jsval = JNull | JBool bool | JNum rat

text \<open>JavaScript truthiness and \<open>ToNumber\<close> on these values.\<close>

fun js_truthy :: "jsval option \<Rightarrow> bool" where
  "js_truthy None = False"
| "js_truthy (Some JNull) = False"
| "js_truthy (Some (JBool b)) = b"
| "js_truthy (Some (JNum n)) = (n \<noteq> 0)"

fun toNumber :: "jsval \<Rightarrow> rat" where
  "toNumber JNull = 0"
| "toNumber (JBool b) = (if b then 1 else 0)"
| "toNumber (JNum n) = n"

text \<open>\<open>v || d\<close> with a numeric default, read as a number.\<close>

definition or_default :: "jsval option \<Rightarrow> rat \<Rightarrow> rat" where
  "or_default v d = (case v of Some x \<Rightarrow> if js_truthy v then toNumber x else d | None \<Rightarrow> d)"

text \<open>The Game schema, with the fields the session routes read or write.\<close>

record game =
  game_id :: objectId
  game_isActive :: bool
  game_difficulty :: string
  estimatedDuration :: rat
  game_playCount :: int
  averageRating :: rat
  ratingCount :: int
  game_updatedAt :: date

record moodBefore =
  mb_mood :: string
  mb_intensity :: int

record moodAfter =
  ma_mood :: "string option"
  ma_intensity :: "int option"

text \<open>
  The session identifier is the string \<open>`${user}_${game}_${Date.now()}`\<close>; it is
  modelled by its three components.
\<close>

type_synonym sessionId = "objectId \<times> objectId \<times> date"

record gameSession =
  gs_id :: objectId
  gs_user :: objectId
  gs_game :: objectId
  gs_sessionId :: sessionId
  gs_moodBefore :: moodBefore
  gs_moodAfter :: moodAfter
  score :: int
  maxScore :: int
  duration :: int
  completed :: bool
  completionPercentage :: int
  gs_difficulty :: string
  gameData :: "string \<rightharpoonup> jsval"
  achievements :: "string list"
  rating :: "int option"
  feedback :: "string option"
  deviceType :: string
  startedAt :: date
  completedAt :: "date option"
  gs_createdAt :: date

definition session_mood_enum :: "string list" where
  "session_mood_enum = [''happy'', ''sad'', ''energetic'', ''calm'', ''anxious'', ''excited'',
     ''melancholic'', ''focused'', ''angry'', ''peaceful'', ''stressed'', ''bored'', ''lonely'',
     ''overwhelmed'']"

definition difficulty_enum :: "string list" where
  "difficulty_enum = [''easy'', ''medium'', ''hard'']"

subsection \<open>The methods of the GameSession model\<close>

text \<open>The virtual \<open>moodImprovement\<close>; a missing, null or zero intensity is falsy.\<close>

definition moodImprovement :: "gameSession \<Rightarrow> int option" where
  "moodImprovement this =
     (case ma_intensity (gs_moodAfter this) of
        None \<Rightarrow> None
      | Some after \<Rightarrow>
          if after = 0 \<or> mb_intensity (gs_moodBefore this) = 0 then None
          else Some (after - mb_intensity (gs_moodBefore this)))"

definition calculateAchievements :: "gameSession \<Rightarrow> gameSession" where
  "calculateAchievements this =
     (let a1 = (if js_truthy (gameData this ''isFirstPlay'') then [''first-play''] else []);
          a2 = (if score this = maxScore this \<and> maxScore this > 0
                then a1 @ [''perfect-score''] else a1);
          a3 = (if of_int (duration this) < or_default (gameData this ''expectedDuration'') 300
                then a2 @ [''quick-finish''] else a2);
          a4 = (if (case moodImprovement this of None \<Rightarrow> False | Some m \<Rightarrow> m \<noteq> 0 \<and> m \<ge> 2)
                then a3 @ [''mood-improver''] else a3);
          a5 = (if of_int (score this) > or_default (gameData this ''averageScore'') 0 * (3 / 2)
                then a4 @ [''high-scorer''] else a4)
      in this\<lparr>achievements := a5\<rparr>)"

text \<open>
  \<open>completeSession(moodAfter, score, gameData)\<close>, up to the \<open>save()\<close>;
  \<open>now\<close> is \<open>new Date()\<close>, and \<open>Math.floor\<close> of the quotient is \<open>div\<close>.
\<close>

definition completeSession ::
  "date \<Rightarrow> moodAfter \<Rightarrow> int \<Rightarrow> (string \<rightharpoonup> jsval) \<Rightarrow> gameSession \<Rightarrow> gameSession" where
  "completeSession now after sc gd this =
     calculateAchievements
       (this\<lparr> gs_moodAfter := after,
              score := sc,
              completed := True,
              completedAt := Some now,
              duration := (now - startedAt this) div 1000,
              gameData := gameData this ++ gd,
              completionPercentage := 100 \<rparr>)"

definition game_incrementPlayCount :: "date \<Rightarrow> game \<Rightarrow> game" where
  "game_incrementPlayCount now this =
     this\<lparr>game_playCount := game_playCount this + 1, game_updatedAt := now\<rparr>"

definition updateRating :: "date \<Rightarrow> int \<Rightarrow> game \<Rightarrow> game" where
  "updateRating now newRating this =
     (let totalRating = averageRating this * of_int (ratingCount this) + of_int newRating
      in this\<lparr> ratingCount := ratingCount this + 1,
               averageRating := totalRating / of_int (ratingCount this + 1),
               game_updatedAt := now \<rparr>)"

subsection \<open>\<open>POST /api/games/:id/start\<close>\<close>

record startBody =
  sb_mood :: "string option"
  sb_intensity :: "int option"
  sb_difficulty :: "string option"
  sb_deviceType :: "string option"

definition valid_start_body :: "startBody \<Rightarrow> bool" where
  "valid_start_body b =
     ((case sb_mood b of None \<Rightarrow> False | Some m \<Rightarrow> m \<in> set session_mood_enum) \<and>
      (case sb_intensity b of None \<Rightarrow> False | Some i \<Rightarrow> 1 \<le> i \<and> i \<le> 10) \<and>
      (case sb_difficulty b of None \<Rightarrow> True | Some d \<Rightarrow> d \<in> set difficulty_enum))"

text \<open>What the client gets back when a session starts.\<close>

record startData =
  sd_sessionId :: sessionId
  sd_game :: objectId
  sd_difficulty :: string

text \<open>
  The handler. \<open>sessionId\<close> has a unique index: saving a second session under an
  identifier already stored throws, and the handler's \<open>catch\<close> answers 500 before the
  game's play count is touched.
\<close>

definition start_session ::
  "date \<Rightarrow> game list \<Rightarrow> gameSession list \<Rightarrow> objectId \<Rightarrow> objectId \<Rightarrow> startBody \<Rightarrow>
     startData response \<times> game list \<times> gameSession list" where
  "start_session now games sessions uid gid b =
     (if \<not> valid_start_body b then (Failure 400 ''Validation failed'', games, sessions)
      else
        case find (\<lambda>g. game_id g = gid) games of
          None \<Rightarrow> (Failure 404 ''Game not found or not available'', games, sessions)
        | Some game \<Rightarrow>
            if \<not> game_isActive game then
              (Failure 404 ''Game not found or not available'', games, sessions)
            else
              case (sb_mood b, sb_intensity b) of
                (Some mood, Some intensity) \<Rightarrow>
                  (let difficulty = (case sb_difficulty b of None \<Rightarrow> game_difficulty game
                                     | Some d \<Rightarrow> d);
                       device = (case sb_deviceType b of None \<Rightarrow> ''unknown'' | Some d \<Rightarrow> d);
                       sid = (uid, game_id game, now);
                       previousSessions =
                         length (filter (\<lambda>s. gs_user s = uid \<and> gs_game s = game_id game) sessions);
                       gameSession = \<lparr>
                         gs_id = new_id (map gs_id sessions),
                         gs_user = uid,
                         gs_game = game_id game,
                         gs_sessionId = sid,
                         gs_moodBefore = \<lparr> mb_mood = mood, mb_intensity = intensity \<rparr>,
                         gs_moodAfter = \<lparr> ma_mood = None, ma_intensity = None \<rparr>,
                         score = 0,
                         maxScore = 0,
                         duration = 0,
                         completed = False,
                         completionPercentage = 0,
                         gs_difficulty = difficulty,
                         gameData = [''isFirstPlay'' \<mapsto> JBool (previousSessions = 0),
                                     ''expectedDuration'' \<mapsto> JNum (estimatedDuration game * 60)],
                         achievements = [],
                         rating = None,
                         feedback = None,
                         deviceType = device,
                         startedAt = now,
                         completedAt = None,
                         gs_createdAt = now \<rparr>
                   in if sid \<in> set (map gs_sessionId sessions) then
                        (Failure 500 ''Server error starting game session'', games, sessions)
                      else
                        (Success 201 \<lparr> sd_sessionId = sid, sd_game = game_id game,
                                       sd_difficulty = difficulty \<rparr>,
                         map (\<lambda>g. if game_id g = gid then game_incrementPlayCount now game else g) games,
                         sessions @ [gameSession]))
              | _ \<Rightarrow> (Failure 400 ''Validation failed'', games, sessions))"

subsection \<open>\<open>PUT /api/games/sessions/:sessionId/complete\<close>\<close>

record completeBody =
  cb_mood :: "string option"
  cb_intensity :: "int option"
  cb_score :: "int option"
  cb_maxScore :: "int option"
  cb_gameData :: "(string \<rightharpoonup> jsval) option"

definition valid_complete_body :: "completeBody \<Rightarrow> bool" where
  "valid_complete_body b =
     ((case cb_mood b of None \<Rightarrow> False | Some m \<Rightarrow> m \<in> set session_mood_enum) \<and>
      (case cb_intensity b of None \<Rightarrow> False | Some i \<Rightarrow> 1 \<le> i \<and> i \<le> 10) \<and>
      (case cb_score b of None \<Rightarrow> False | Some s \<Rightarrow> 0 \<le> s) \<and>
      (case cb_maxScore b of None \<Rightarrow> True | Some m \<Rightarrow> 0 \<le> m))"

record completeData =
  cd_sessionId :: sessionId
  cd_score :: int
  cd_maxScore :: int
  cd_moodImprovement :: int
  cd_achievements :: "string list"
  cd_duration :: int

definition complete_session ::
  "date \<Rightarrow> gameSession list \<Rightarrow> objectId \<Rightarrow> sessionId \<Rightarrow> completeBody \<Rightarrow>
     completeData response \<times> gameSession list" where
  "complete_session now sessions uid sid b =
     (if \<not> valid_complete_body b then (Failure 400 ''Validation failed'', sessions)
      else
        case find (\<lambda>s. gs_sessionId s = sid \<and> gs_user s = uid) sessions of
          None \<Rightarrow> (Failure 404 ''Game session not found'', sessions)
        | Some gameSession \<Rightarrow>
            if completed gameSession then
              (Failure 400 ''Game session already completed'', sessions)
            else
              case (cb_mood b, cb_intensity b, cb_score b) of
                (Some mood, Some intensity, Some sc) \<Rightarrow>
                  (let mx = (case cb_maxScore b of None \<Rightarrow> sc | Some m \<Rightarrow> m);
                       gd = (case cb_gameData b of None \<Rightarrow> Map.empty | Some g \<Rightarrow> g);
                       after = \<lparr> ma_mood = Some mood, ma_intensity = Some intensity \<rparr>;
                       saved = completeSession now after sc gd (gameSession\<lparr>maxScore := mx\<rparr>)
                   in (Success 200 \<lparr>
                         cd_sessionId = gs_sessionId saved,
                         cd_score = sc,
                         cd_maxScore = mx,
                         cd_moodImprovement = intensity - mb_intensity (gs_moodBefore saved),
                         cd_achievements = achievements saved,
                         cd_duration = duration saved \<rparr>,
                       map (\<lambda>s. if gs_id s = gs_id gameSession then saved else s) sessions))
              | _ \<Rightarrow> (Failure 400 ''Validation failed'', sessions))"

subsection \<open>\<open>POST /api/games/:id/rate\<close>\<close>

record rateBody =
  rb_rating :: "int option"
  rb_feedback :: "string option"

definition valid_rate_body :: "rateBody \<Rightarrow> bool" where
  "valid_rate_body b =
     ((case rb_rating b of None \<Rightarrow> False | Some r \<Rightarrow> 1 \<le> r \<and> r \<le> 5) \<and>
      (case rb_feedback b of None \<Rightarrow> True | Some f \<Rightarrow> length (trim f) \<le> 500))"

text \<open>
  \<open>findOneAndUpdate(filter, { rating, feedback }, { sort: { completedAt: -1 } })\<close>:
  the latest completed session of the user with the game gets the rating (an absent
  feedback is taken to leave the stored one).
\<close>

definition latest_completed :: "objectId \<Rightarrow> objectId \<Rightarrow> gameSession list \<Rightarrow> gameSession option" where
  "latest_completed uid gid sessions =
     (case sort_key (\<lambda>s. - (case completedAt s of None \<Rightarrow> 0 | Some t \<Rightarrow> t))
             (filter (\<lambda>s. gs_user s = uid \<and> gs_game s = gid \<and> completed s) sessions) of
        [] \<Rightarrow> None
      | s # _ \<Rightarrow> Some s)"

definition rate_game ::
  "date \<Rightarrow> game list \<Rightarrow> gameSession list \<Rightarrow> objectId \<Rightarrow> objectId \<Rightarrow> rateBody \<Rightarrow>
     (rat \<times> int) response \<times> game list \<times> gameSession list" where
  "rate_game now games sessions uid gid b =
     (if \<not> valid_rate_body b then (Failure 400 ''Validation failed'', games, sessions)
      else
        case find (\<lambda>g. game_id g = gid) games of
          None \<Rightarrow> (Failure 404 ''Game not found'', games, sessions)
        | Some game \<Rightarrow>
            (case (rb_rating b, latest_completed uid (game_id game) sessions) of
               (Some r, Some target) \<Rightarrow>
                 (let rated = updateRating now r game;
                      updated = target\<lparr> rating := Some r,
                                       feedback := (case rb_feedback b of
                                                      None \<Rightarrow> feedback target
                                                    | Some f \<Rightarrow> Some (trim f)) \<rparr>
                  in (Success 200 (averageRating rated, ratingCount rated),
                      map (\<lambda>g. if game_id g = gid then rated else g) games,
                      map (\<lambda>s. if gs_id s = gs_id target then updated else s) sessions))
             | (Some r, None) \<Rightarrow>
                 (Failure 400 ''You must complete a game session before rating'', games, sessions)
             | _ \<Rightarrow> (Failure 400 ''Validation failed'', games, sessions)))"

text \<open>
  The states of the game catalogue and the session collection that the three routes
  can produce, starting from any catalogue and no sessions.
\<close>

inductive reachable :: "game list \<Rightarrow> gameSession list \<Rightarrow> bool" where
  init: "reachable games []"
| start: "reachable games sessions \<Longrightarrow>
          start_session now games sessions uid gid sb = (r, games', sessions') \<Longrightarrow>
          reachable games' sessions'"
| complete: "reachable games sessions \<Longrightarrow>
          complete_session now sessions uid sid cb = (r', sessions') \<Longrightarrow>
          reachable games sessions'"
| rate: "reachable games sessions \<Longrightarrow>
          rate_game now games sessions uid gid rb = (r'', games', sessions') \<Longrightarrow>
          reachable games' sessions'"

section \<open>Mood statistics\<close>

text \<open>
  \<open>startDate = new Date(); startDate.setDate(startDate.getDate() - days)\<close>. \<open>setDate\<close>
  works on the local time value: it moves the day of the month back by \<open>days\<close>, keeps
  the time within the day, and converts the result to an instant. \<open>tz\<close> is the offset
  in minutes of local time at an instant, as for \<open>getHours\<close>; \<open>tzl\<close> is the offset in
  minutes that applies to a local time value. Both belong to the environment. Across a
  change of the offset (daylight saving) the window is not a multiple of 24 hours.
\<close>

definition startDate :: "(date \<Rightarrow> int) \<Rightarrow> (int \<Rightarrow> int) \<Rightarrow> date \<Rightarrow> int \<Rightarrow> date" where
  "startDate tz tzl now days =
     (let local = now + tz now * 60000 - days * 86400000
      in local - tzl local * 60000)"

text \<open>The \<open>$match\<close> stage: the user's logs created at or after the start date.\<close>

definition match_window :: "objectId \<Rightarrow> date \<Rightarrow> moodLog list \<Rightarrow> moodLog list" where
  "match_window uid start logs =
     filter (\<lambda>d. ml_user d = uid \<and> ml_createdAt d \<ge> start) logs"

text \<open>
  The \<open>$group\<close> stage by \<open>$mood\<close> with \<open>count: { $sum: 1 }\<close> and
  \<open>avgIntensity: { $avg: '$intensity' }\<close>, one row for each mood that occurs, and the
  \<open>$sort\<close> stage by \<open>count\<close> descending. Intensities are integers, so the sum of a
  group is exact and \<open>$avg\<close> rounds once, in its division by the count.
  \<open>mongoose.Types.ObjectId(userId)\<close> is taken to return the user's id (with a driver
  whose \<open>ObjectId\<close> must be called with \<open>new\<close> the aggregation would throw and the
  route answer 500).
\<close>

record frequencyRow =
  fr_id :: string
  fr_count :: nat
  fr_avgIntensity :: rat

definition group_by_mood :: "moodLog list \<Rightarrow> frequencyRow list" where
  "group_by_mood ds =
     map (\<lambda>m. let g = filter (\<lambda>d. ml_mood d = m) ds
              in \<lparr> fr_id = m, fr_count = length g,
                   fr_avgIntensity =
                     round_double (of_int (sum_list (map ml_intensity g)) / of_nat (length g)) \<rparr>)
         (remdups (map ml_mood ds))"

definition getMoodFrequency ::
  "(date \<Rightarrow> int) \<Rightarrow> (int \<Rightarrow> int) \<Rightarrow> date \<Rightarrow> moodLog list \<Rightarrow> objectId \<Rightarrow> int \<Rightarrow>
     frequencyRow list" where
  "getMoodFrequency tz tzl now logs userId days =
     sort_key (\<lambda>r. - int (fr_count r))
       (group_by_mood (match_window userId (startDate tz tzl now days) logs))"

text \<open>\<open>GET /api/moods/frequency\<close>.\<close>

definition get_frequency ::
  "(date \<Rightarrow> int) \<Rightarrow> (int \<Rightarrow> int) \<Rightarrow> date \<Rightarrow> moodLog list \<Rightarrow> objectId \<Rightarrow> int option \<Rightarrow>
     frequencyRow list response" where
  "get_frequency tz tzl now logs uid days =
     (if \<not> (case days of None \<Rightarrow> True | Some d \<Rightarrow> 1 \<le> d \<and> d \<le> 365) then
        Failure 400 ''Validation failed''
      else
        Success 200
          (getMoodFrequency tz tzl now logs uid (case days of None \<Rightarrow> 30 | Some d \<Rightarrow> d)))"

text \<open>
  \<open>GET /api/analytics/mood-trends\<close>: its mood distribution and the total of its
  summary. The handler runs the pipeline of \<open>getMoodFrequency\<close> inline (with a
  placeholder \<open>percentage\<close> in the \<open>$group\<close> stage) and then overwrites each row's
  \<open>percentage\<close> with \<open>(mood.count / totalMoods) * 100\<close>, a division and a
  multiplication of doubles. Counts stay below \<open>2 ^ 53\<close> and are exact. (The table of
  trends by date bucket, which the handler also sends, is not modelled.)
\<close>

record distributionRow =
  dr_id :: string
  dr_count :: nat
  dr_avgIntensity :: rat
  dr_percentage :: rat

record trendsData =
  moodDistribution :: "distributionRow list"
  totalEntries :: nat

definition groupBy_enum :: "string list" where
  "groupBy_enum = [''day'', ''week'', ''month'']"

definition get_mood_trends ::
  "(date \<Rightarrow> int) \<Rightarrow> (int \<Rightarrow> int) \<Rightarrow> date \<Rightarrow> moodLog list \<Rightarrow> objectId \<Rightarrow> int option \<Rightarrow>
     string option \<Rightarrow> trendsData response" where
  "get_mood_trends tz tzl now logs uid days groupBy =
     (if \<not> ((case days of None \<Rightarrow> True | Some d \<Rightarrow> 7 \<le> d \<and> d \<le> 365) \<and>
             (case groupBy of None \<Rightarrow> True | Some g \<Rightarrow> g \<in> set groupBy_enum)) then
        Failure 400 ''Validation failed''
      else
        let rows = getMoodFrequency tz tzl now logs uid
                     (case days of None \<Rightarrow> 30 | Some d \<Rightarrow> d);
            totalMoods = sum_list (map fr_count rows)
        in Success 200 \<lparr>
             moodDistribution =
               map (\<lambda>mood. \<lparr> dr_id = fr_id mood, dr_count = fr_count mood,
                             dr_avgIntensity = fr_avgIntensity mood,
                             dr_percentage =
                               (if totalMoods > 0
                                then round_double
                                  (round_double (of_nat (fr_count mood) / of_nat totalMoods) * 100)
                                else 0) \<rparr>) rows,
             totalEntries = totalMoods \<rparr>)"

section \<open>Auxiliary notions for the proofs\<close>

text \<open>
  The document that \<open>POST /api/moods\<close> builds with \<open>new MoodLog({...})\<close> from a body
  whose mood, intensity and detection method are given.
\<close>

definition new_moodLog ::
  "date \<Rightarrow> moodLog list \<Rightarrow> objectId \<Rightarrow> moodBody \<Rightarrow> string \<Rightarrow> int \<Rightarrow> string \<Rightarrow> moodLog" where
  "new_moodLog now logs uid b mood intensity detectionMethod =
     (let context = (case b_context b of None \<Rightarrow> Map.empty | Some c \<Rightarrow> c)
      in \<lparr>
        ml_id = new_id (map ml_id logs),
        ml_user = uid,
        ml_mood = mood,
        ml_intensity = intensity,
        ml_detectionMethod = detectionMethod,
        ml_confidence = (case b_confidence b of None \<Rightarrow> 1 | Some c \<Rightarrow> c),
        ml_notes = map_option trim (b_notes b),
        ml_context = \<lparr>
          location = ctx_field context ''location'',
          activity = ctx_field context ''activity'',
          weather = (if truthy (ctx_field context ''weather'')
                     then ctx_field context ''weather'' else Some ''unknown''),
          timeOfDay = ctx_field context ''timeOfDay'' \<rparr>,
        ml_triggers = (case b_triggers b of None \<Rightarrow> [] | Some t \<Rightarrow> t),
        ml_previousMood = (case findOne_latest uid logs of
            Some p \<Rightarrow> Some \<lparr> pm_mood = ml_mood p, pm_intensity = ml_intensity p,
                             pm_timestamp = ml_createdAt p \<rparr>
          | None \<Rightarrow> None),
        ml_sessionId = b_sessionId b,
        ml_createdAt = now \<rparr>)"

text \<open>
  The document that \<open>PUT /api/moods/:id\<close> writes back for a stored log: the three
  assignments, then the save hook.
\<close>

definition put_mood_document :: "(date \<Rightarrow> int) \<Rightarrow> moodBody \<Rightarrow> moodLog \<Rightarrow> moodLog" where
  "put_mood_document tz b moodLog =
     (let u1 = (case b_notes b of None \<Rightarrow> moodLog
                | Some n \<Rightarrow> moodLog\<lparr>ml_notes := Some (trim n)\<rparr>);
          u2 = (case b_context b of None \<Rightarrow> u1
                | Some c \<Rightarrow> u1\<lparr>ml_context := merge_context (ml_context moodLog) c\<rparr>);
          u3 = (case b_triggers b of None \<Rightarrow> u2
                | Some t \<Rightarrow> u2\<lparr>ml_triggers := t\<rparr>)
      in pre_save tz u3)"

text \<open>
  The list that \<open>calculateAchievements\<close> builds by its five pushes, written as one
  concatenation.
\<close>

definition earned :: "gameSession \<Rightarrow> string list" where
  "earned s =
     (if js_truthy (gameData s ''isFirstPlay'') then [''first-play''] else []) @
     (if score s = maxScore s \<and> maxScore s > 0 then [''perfect-score''] else []) @
     (if of_int (duration s) < or_default (gameData s ''expectedDuration'') 300
      then [''quick-finish''] else []) @
     (if (case moodImprovement s of None \<Rightarrow> False | Some m \<Rightarrow> m \<noteq> 0 \<and> m \<ge> 2)
      then [''mood-improver''] else []) @
     (if of_int (score s) > or_default (gameData s ''averageScore'') 0 * (3 / 2)
      then [''high-scorer''] else [])"

text \<open>
  The document that a successful completion request writes back: the session found,
  after \<open>gameSession.maxScore = maxScore\<close> and \<open>completeSession\<close>.
\<close>

definition completion_of :: "date \<Rightarrow> completeBody \<Rightarrow> gameSession \<Rightarrow> gameSession" where
  "completion_of now b old =
     (case (cb_mood b, cb_intensity b, cb_score b) of
        (Some mood, Some intensity, Some sc) \<Rightarrow>
          completeSession now \<lparr> ma_mood = Some mood, ma_intensity = Some intensity \<rparr> sc
            (case cb_gameData b of None \<Rightarrow> Map.empty | Some g \<Rightarrow> g)
            (old\<lparr>maxScore := (case cb_maxScore b of None \<Rightarrow> sc | Some m \<Rightarrow> m)\<rparr>)
      | _ \<Rightarrow> old)"

text \<open>
  What the route validators and the model methods maintain for every stored session:
  the intensity before is between 1 and 10; a session that is not completed has no
  mood after and no achievements; a completed one has an intensity after between 1 and
  10, and its achievements are those that the rules give on its stored fields.
\<close>

definition session_inv :: "gameSession \<Rightarrow> bool" where
  "session_inv s =
     (1 \<le> mb_intensity (gs_moodBefore s) \<and> mb_intensity (gs_moodBefore s) \<le> 10 \<and>
      (if completed s then
         (case ma_intensity (gs_moodAfter s) of None \<Rightarrow> False | Some a \<Rightarrow> 1 \<le> a \<and> a \<le> 10) \<and>
         achievements s = achievements (calculateAchievements s)
       else
         gs_moodAfter s = \<lparr> ma_mood = None, ma_intensity = None \<rparr> \<and> achievements s = []))"

text \<open>
  The logs that the statistics of a request range over: those of the user in the
  window of \<open>days\<close> days, 30 when the query gives none.
\<close>

definition window_logs ::
  "(date \<Rightarrow> int) \<Rightarrow> (int \<Rightarrow> int) \<Rightarrow> date \<Rightarrow> moodLog list \<Rightarrow> objectId \<Rightarrow> int option \<Rightarrow>
     moodLog list" where
  "window_logs tz tzl now logs uid days =
     match_window uid (startDate tz tzl now (case days of None \<Rightarrow> 30 | Some d \<Rightarrow> d)) logs"

section \<open>Example data\<close>

text \<open>
  A first log of user 7 as it is built at 14:00 UTC from a body with mood, intensity and
  detection method only; three stored logs of user 7 (14:00, 18:00 and, a day later,
  08:00 UTC); and a request body that also carries fields the routes do not read.
\<close>

definition example_log :: moodLog where
  "example_log = \<lparr> ml_id = 1, ml_user = 7, ml_mood = ''happy'', ml_intensity = 8,
     ml_detectionMethod = ''text'', ml_confidence = 1, ml_notes = None,
     ml_context = \<lparr> location = None, activity = None, weather = Some ''unknown'',
                     timeOfDay = None \<rparr>,
     ml_triggers = [], ml_previousMood = None, ml_sessionId = None,
     ml_createdAt = 50400000 \<rparr>"

definition example_plain_body :: moodBody where
  "example_plain_body = \<lparr> b_mood = Some ''happy'', b_intensity = Some 8,
     b_detectionMethod = Some ''text'', b_confidence = None, b_notes = None,
     b_context = None, b_triggers = None, b_sessionId = None, b_previousMood = None,
     b_user = None, b_createdAt = None \<rparr>"

definition example_logs :: "moodLog list" where
  "example_logs =
     [\<lparr> ml_id = 1, ml_user = 7, ml_mood = ''happy'', ml_intensity = 8,
        ml_detectionMethod = ''text'', ml_confidence = 1, ml_notes = None,
        ml_context = \<lparr> location = None, activity = None, weather = Some ''unknown'',
                        timeOfDay = Some ''afternoon'' \<rparr>,
        ml_triggers = [], ml_previousMood = None, ml_sessionId = None,
        ml_createdAt = 50400000 \<rparr>,
      \<lparr> ml_id = 2, ml_user = 7, ml_mood = ''sad'', ml_intensity = 3,
        ml_detectionMethod = ''manual'', ml_confidence = 1, ml_notes = None,
        ml_context = \<lparr> location = None, activity = None, weather = Some ''rainy'',
                        timeOfDay = Some ''evening'' \<rparr>,
        ml_triggers = [''work''],
        ml_previousMood = Some \<lparr> pm_mood = ''happy'', pm_intensity = 8, pm_timestamp = 50400000 \<rparr>,
        ml_sessionId = None, ml_createdAt = 64800000 \<rparr>,
      \<lparr> ml_id = 3, ml_user = 7, ml_mood = ''happy'', ml_intensity = 6,
        ml_detectionMethod = ''voice'', ml_confidence = 1 / 2, ml_notes = None,
        ml_context = \<lparr> location = None, activity = None, weather = Some ''unknown'',
                        timeOfDay = Some ''morning'' \<rparr>,
        ml_triggers = [],
        ml_previousMood = Some \<lparr> pm_mood = ''sad'', pm_intensity = 3, pm_timestamp = 64800000 \<rparr>,
        ml_sessionId = None, ml_createdAt = 115200000 \<rparr>]"

definition example_body :: moodBody where
  "example_body = \<lparr> b_mood = Some ''angry'', b_intensity = Some 9,
     b_detectionMethod = Some ''voice'', b_confidence = None, b_notes = Some '' rainy day '',
     b_context = Some [''timeOfDay'' \<mapsto> Some ''night''], b_triggers = Some [''work''],
     b_sessionId = Some ''s1'', b_previousMood = None, b_user = Some 9,
     b_createdAt = Some 0 \<rparr>"

text \<open>The log that user 7 gets stored with the example body, after the three logs.\<close>

definition example_posted :: moodLog where
  "example_posted = \<lparr> ml_id = 4, ml_user = 7, ml_mood = ''angry'', ml_intensity = 9,
     ml_detectionMethod = ''voice'', ml_confidence = 1, ml_notes = Some ''rainy day'',
     ml_context = \<lparr> location = None, activity = None, weather = Some ''unknown'',
                     timeOfDay = Some ''night'' \<rparr>,
     ml_triggers = [''work''],
     ml_previousMood = Some \<lparr> pm_mood = ''happy'', pm_intensity = 6, pm_timestamp = 115200000 \<rparr>,
     ml_sessionId = Some ''s1'', ml_createdAt = 120000000 \<rparr>"

text \<open>The second log of the example after an update with the example body.\<close>

definition example_updated :: moodLog where
  "example_updated = (example_logs ! 1)
     \<lparr> ml_notes := Some ''rainy day'',
       ml_context := (ml_context (example_logs ! 1))\<lparr>timeOfDay := Some ''night''\<rparr>,
       ml_triggers := [''work''] \<rparr>"

text \<open>
  Five songs: song 2 is private and uploaded by user 9, song 3 is private and uploaded by
  user 7, the others are public. One private playlist of user 9.
\<close>

definition example_songs :: "song list" where
  "example_songs =
     [\<lparr> song_id = 1, title = ''Sunrise'', artist = ''A'', genre = ''pop'',
        moodTags = [''happy''], tempo = ''fast'', energy = 8, valence = 6, uploadedBy = 9,
        song_isPublic = True, song_playCount = 10, likes = 2, song_createdAt = 100,
        song_updatedAt = 100 \<rparr>,
      \<lparr> song_id = 2, title = ''Hidden'', artist = ''B'', genre = ''rock'',
        moodTags = [''happy''], tempo = ''fast'', energy = 7, valence = 5, uploadedBy = 9,
        song_isPublic = False, song_playCount = 50, likes = 9, song_createdAt = 200,
        song_updatedAt = 200 \<rparr>,
      \<lparr> song_id = 3, title = ''Mine'', artist = ''C'', genre = ''pop'',
        moodTags = [''happy'', ''energetic''], tempo = ''medium'', energy = 10, valence = 9,
        uploadedBy = 7, song_isPublic = False, song_playCount = 5, likes = 0,
        song_createdAt = 300, song_updatedAt = 300 \<rparr>,
      \<lparr> song_id = 4, title = ''Calm sea'', artist = ''D'', genre = ''ambient'',
        moodTags = [''calm''], tempo = ''slow'', energy = 5, valence = 5, uploadedBy = 9,
        song_isPublic = True, song_playCount = 99, likes = 7, song_createdAt = 400,
        song_updatedAt = 400 \<rparr>,
      \<lparr> song_id = 5, title = ''Walk'', artist = ''E'', genre = ''folk'',
        moodTags = [''happy''], tempo = ''medium'', energy = 6, valence = 3, uploadedBy = 8,
        song_isPublic = True, song_playCount = 10, likes = 4, song_createdAt = 500,
        song_updatedAt = 500 \<rparr>]"

definition example_playlists :: "playlist list" where
  "example_playlists =
     [\<lparr> pl_id = 1, pl_name = ''Private mix'', pl_description = None, pl_owner = 9,
        pl_songs = [2], pl_isAutoGenerated = False, pl_generatedFor = None,
        pl_isPublic = False, pl_playCount = 4, pl_followers = [] \<rparr>]"

definition example_rec_query :: recQuery where
  "example_rec_query = \<lparr> q_mood = None, q_energy = Some 8, q_valence = Some 5, q_limit = None \<rparr>"

definition example_gen_query :: genQuery where
  "example_gen_query = \<lparr> g_mood = Some ''happy'', g_tempo = None, g_genre = None,
     g_limit = Some 5 \<rparr>"

text \<open>The playlist that user 7 gets for the example query.\<close>

definition example_generated :: playlist where
  "example_generated = \<lparr> pl_id = 2, pl_name = ''Happy Mix'',
     pl_description = Some ''Automatically generated playlist based on your preferences'',
     pl_owner = 7, pl_songs = [5, 1, 3], pl_isAutoGenerated = True,
     pl_generatedFor = Some \<lparr> gf_mood = Some ''happy'', gf_tempo = None, gf_genre = None \<rparr>,
     pl_isPublic = False, pl_playCount = 0, pl_followers = [] \<rparr>"

text \<open>
  A catalogue with one game and a run of the session routes by user 7: a first session
  started and completed with a perfect score, then a second one started.
\<close>

definition example_games :: "game list" where
  "example_games = [\<lparr> game_id = 3, game_isActive = True, game_difficulty = ''easy'',
     estimatedDuration = 5, game_playCount = 0, averageRating = 0, ratingCount = 0,
     game_updatedAt = 0 \<rparr>]"

definition example_start :: startBody where
  "example_start = \<lparr> sb_mood = Some ''sad'', sb_intensity = Some 4, sb_difficulty = None,
     sb_deviceType = None \<rparr>"

definition example_complete :: completeBody where
  "example_complete = \<lparr> cb_mood = Some ''calm'', cb_intensity = Some 7, cb_score = Some 100,
     cb_maxScore = Some 100, cb_gameData = None \<rparr>"

definition example_complete_again :: completeBody where
  "example_complete_again = \<lparr> cb_mood = Some ''happy'', cb_intensity = Some 5, cb_score = Some 1,
     cb_maxScore = Some 100, cb_gameData = Some [''isFirstPlay'' \<mapsto> JBool True] \<rparr>"

definition example_sessions1 :: "gameSession list" where
  "example_sessions1 = snd (snd (start_session 1000 example_games [] 7 3 example_start))"

definition example_games1 :: "game list" where
  "example_games1 = fst (snd (start_session 1000 example_games [] 7 3 example_start))"

definition example_sessions2 :: "gameSession list" where
  "example_sessions2 = snd (complete_session 61000 example_sessions1 7 (7, 3, 1000) example_complete)"

definition example_sessions3 :: "gameSession list" where
  "example_sessions3 = snd (snd (start_session 100000 example_games1 example_sessions2 7 3 example_start))"

definition example_games3 :: "game list" where
  "example_games3 = fst (snd (start_session 100000 example_games1 example_sessions2 7 3 example_start))"

definition example_sessions4 :: "gameSession list" where
  "example_sessions4 = snd (complete_session 900000 example_sessions3 7 (7, 3, 100000) example_complete_again)"

section \<open>Properties of mood logs\<close>

lemma pre_save_truthy: "truthy (timeOfDay (ml_context this)) \<Longrightarrow> pre_save tz this = this"
  by (simp add: pre_save_def)

lemma pre_save_derived:
  "\<not> truthy (timeOfDay (ml_context this)) \<Longrightarrow>
   timeOfDay (ml_context (pre_save tz this)) =
     (let h = getHours tz (ml_createdAt this) in
      if 5 \<le> h \<and> h < 12 then Some ''morning''
      else if 12 \<le> h \<and> h < 17 then Some ''afternoon''
      else if 17 \<le> h \<and> h < 21 then Some ''evening''
      else Some ''night'')"
  by (simp add: pre_save_def Let_def)

lemma findOne_latest_None:
  "findOne_latest uid logs = None \<longleftrightarrow> (\<forall>d\<in>set logs. ml_user d \<noteq> uid)"
proof -
  have "sort_key (\<lambda>d. - ml_createdAt d) (filter (\<lambda>d. ml_user d = uid) logs) = [] \<longleftrightarrow>
        filter (\<lambda>d. ml_user d = uid) logs = []"
    by (metis length_0_conv length_sort)
  then show ?thesis
    by (auto simp: findOne_latest_def filter_empty_conv split: list.splits)
qed

lemma findOne_latest_Some:
  assumes "findOne_latest uid logs = Some p"
  shows "p \<in> set logs \<and> ml_user p = uid \<and>
         (\<forall>q\<in>set logs. ml_user q = uid \<longrightarrow> ml_createdAt q \<le> ml_createdAt p)"
proof -
  let ?ys = "sort_key (\<lambda>d. - ml_createdAt d) (filter (\<lambda>d. ml_user d = uid) logs)"
  from assms obtain rest where ys: "?ys = p # rest"
    by (auto simp: findOne_latest_def split: list.splits)
  have set_ys: "set ?ys = {d \<in> set logs. ml_user d = uid}" by simp
  have "sorted (map (\<lambda>d. - ml_createdAt d) ?ys)" by (rule sorted_sort_key)
  with ys have le: "\<forall>q\<in>set rest. - ml_createdAt p \<le> - ml_createdAt q" by simp
  have p_in: "p \<in> set ?ys" using ys by simp
  have "\<forall>q\<in>set ?ys. ml_createdAt q \<le> ml_createdAt p"
    using le ys by auto
  with p_in set_ys show ?thesis by auto
qed

lemma post_mood_run:
  assumes "valid_log_body b"
    and "b_mood b = Some mood" "b_intensity b = Some intensity" "b_detectionMethod b = Some dm"
  shows "post_mood validate tz now logs uid b =
    (if \<not> validate (new_moodLog now logs uid b mood intensity dm) then
       (Failure 500 ''Server error logging mood'', logs)
     else
       (Success 201 (pre_save tz (new_moodLog now logs uid b mood intensity dm)),
        logs @ [pre_save tz (new_moodLog now logs uid b mood intensity dm)]))"
  using assms by (simp add: post_mood_def new_moodLog_def Let_def)

lemma pre_save_fields:
  "ml_user (pre_save tz d) = ml_user d"
  "ml_createdAt (pre_save tz d) = ml_createdAt d"
  "ml_previousMood (pre_save tz d) = ml_previousMood d"
  by (simp_all add: pre_save_def Let_def)

lemma new_moodLog_fields:
  "ml_user (new_moodLog now logs uid b mood intensity dm) = uid"
  "ml_createdAt (new_moodLog now logs uid b mood intensity dm) = now"
  "ml_previousMood (new_moodLog now logs uid b mood intensity dm) =
     (case findOne_latest uid logs of
        Some p \<Rightarrow> Some \<lparr> pm_mood = ml_mood p, pm_intensity = ml_intensity p,
                         pm_timestamp = ml_createdAt p \<rparr>
      | None \<Rightarrow> None)"
  by (simp_all add: new_moodLog_def Let_def)

lemma post_mood_success:
  assumes run: "post_mood validate tz now logs uid b = (Success c doc, logs')"
  shows "c = 201 \<and> logs' = logs @ [doc] \<and> ml_user doc = uid \<and> ml_createdAt doc = now \<and>
      ((\<forall>d\<in>set logs. ml_user d \<noteq> uid) \<longrightarrow> ml_previousMood doc = None) \<and>
      ((\<exists>d\<in>set logs. ml_user d = uid) \<longrightarrow>
         (\<exists>p\<in>set logs. ml_user p = uid \<and>
            (\<forall>q\<in>set logs. ml_user q = uid \<longrightarrow> ml_createdAt q \<le> ml_createdAt p) \<and>
            findOne_latest uid logs = Some p \<and>
            ml_previousMood doc = Some \<lparr> pm_mood = ml_mood p, pm_intensity = ml_intensity p,
                                        pm_timestamp = ml_createdAt p \<rparr>))"
proof -
  have v: "valid_log_body b"
    using run by (cases "valid_log_body b") (simp_all add: post_mood_def)
  then obtain mood intensity dm where
    m: "b_mood b = Some mood" "b_intensity b = Some intensity" "b_detectionMethod b = Some dm"
    by (auto simp: valid_log_body_def split: option.splits)
  let ?new = "new_moodLog now logs uid b mood intensity dm"
  from run have ok: "validate ?new"
    unfolding post_mood_run [OF v m] by (cases "validate ?new") simp_all
  with run have out: "c = 201" "doc = pre_save tz ?new" "logs' = logs @ [doc]"
    unfolding post_mood_run [OF v m] by auto
  have basic: "c = 201 \<and> logs' = logs @ [doc] \<and> ml_user doc = uid \<and> ml_createdAt doc = now"
    using out by (simp add: pre_save_fields new_moodLog_fields)
  have prev: "ml_previousMood doc =
      (case findOne_latest uid logs of
         Some p \<Rightarrow> Some \<lparr> pm_mood = ml_mood p, pm_intensity = ml_intensity p,
                          pm_timestamp = ml_createdAt p \<rparr>
       | None \<Rightarrow> None)"
    unfolding out(2) by (simp add: pre_save_fields new_moodLog_fields)
  have none: "(\<forall>d\<in>set logs. ml_user d \<noteq> uid) \<longrightarrow> ml_previousMood doc = None"
    using prev by (simp add: findOne_latest_None [symmetric])
  have some: "(\<exists>d\<in>set logs. ml_user d = uid) \<longrightarrow>
         (\<exists>p\<in>set logs. ml_user p = uid \<and>
            (\<forall>q\<in>set logs. ml_user q = uid \<longrightarrow> ml_createdAt q \<le> ml_createdAt p) \<and>
            findOne_latest uid logs = Some p \<and>
            ml_previousMood doc = Some \<lparr> pm_mood = ml_mood p, pm_intensity = ml_intensity p,
                                        pm_timestamp = ml_createdAt p \<rparr>)"
  proof
    assume "\<exists>d\<in>set logs. ml_user d = uid"
    then have "findOne_latest uid logs \<noteq> None" by (simp add: findOne_latest_None)
    then obtain p where p: "findOne_latest uid logs = Some p" by blast
    from findOne_latest_Some [OF p] p prev
    show "\<exists>p\<in>set logs. ml_user p = uid \<and>
            (\<forall>q\<in>set logs. ml_user q = uid \<longrightarrow> ml_createdAt q \<le> ml_createdAt p) \<and>
            findOne_latest uid logs = Some p \<and>
            ml_previousMood doc = Some \<lparr> pm_mood = ml_mood p, pm_intensity = ml_intensity p,
                                        pm_timestamp = ml_createdAt p \<rparr>"
      by auto
  qed
  from basic none some show ?thesis by blast
qed

lemma post_mood_total:
  assumes v: "valid_log_body b"
  shows "(\<exists>doc. post_mood (\<lambda>d. True) tz now logs uid b = (Success 201 doc, logs @ [doc])) \<and>
      ((\<exists>doc. post_mood validate tz now logs uid b = (Success 201 doc, logs @ [doc])) \<or>
       post_mood validate tz now logs uid b = (Failure 500 ''Server error logging mood'', logs))"
proof -
  from v obtain mood intensity dm where
    m: "b_mood b = Some mood" "b_intensity b = Some intensity" "b_detectionMethod b = Some dm"
    by (auto simp: valid_log_body_def split: option.splits)
  show ?thesis unfolding post_mood_run [OF v m] by simp
qed

lemma post_mood_schema_missing:
  assumes v: "valid_log_body b"
    and miss: "\<not> truthy (case b_context b of None \<Rightarrow> None
                 | Some x \<Rightarrow> (case x ''timeOfDay'' of None \<Rightarrow> None | Some t \<Rightarrow> t))"
  shows "post_mood schema_validate tz now logs uid b =
           (Failure 500 ''Server error logging mood'', logs)"
proof -
  from v obtain mood intensity dm where
    m: "b_mood b = Some mood" "b_intensity b = Some intensity" "b_detectionMethod b = Some dm"
    by (auto simp: valid_log_body_def split: option.splits)
  let ?new = "new_moodLog now logs uid b mood intensity dm"
  have "timeOfDay (ml_context ?new) =
      (case b_context b of None \<Rightarrow> None
       | Some x \<Rightarrow> (case x ''timeOfDay'' of None \<Rightarrow> None | Some t \<Rightarrow> t))"
    by (simp add: new_moodLog_def ctx_field_def Let_def split: option.splits)
  with miss have "\<not> truthy (timeOfDay (ml_context ?new))" by simp
  then have "\<not> schema_validate ?new"
    by (auto simp: schema_validate_def truthy_def timeOfDay_enum_def split: option.splits)
  then show ?thesis unfolding post_mood_run [OF v m] by simp
qed

lemma post_mood_schema_supplied:
  assumes run: "post_mood schema_validate tz now logs uid b = (Success c doc, logs')"
  shows "\<exists>x t. b_context b = Some x \<and> x ''timeOfDay'' = Some (Some t) \<and>
           t \<in> set timeOfDay_enum \<and> timeOfDay (ml_context doc) = Some t \<and>
           logs' = logs @ [doc]"
proof -
  have v: "valid_log_body b"
    using run by (cases "valid_log_body b") (simp_all add: post_mood_def)
  then obtain mood intensity dm where
    m: "b_mood b = Some mood" "b_intensity b = Some intensity" "b_detectionMethod b = Some dm"
    by (auto simp: valid_log_body_def split: option.splits)
  let ?new = "new_moodLog now logs uid b mood intensity dm"
  from run have ok: "schema_validate ?new"
    unfolding post_mood_run [OF v m] by (cases "schema_validate ?new") simp_all
  with run have out: "doc = pre_save tz ?new" "logs' = logs @ [doc]"
    unfolding post_mood_run [OF v m] by auto
  from ok obtain t where t: "timeOfDay (ml_context ?new) = Some t" "t \<in> set timeOfDay_enum"
    by (auto simp: schema_validate_def split: option.splits)
  from t(2) have "t \<noteq> []" by (auto simp: timeOfDay_enum_def)
  with t(1) have "truthy (timeOfDay (ml_context ?new))" by (simp add: truthy_def)
  then have same: "pre_save tz ?new = ?new" by (rule pre_save_truthy)
  have "timeOfDay (ml_context ?new) =
      (case b_context b of None \<Rightarrow> None
       | Some x \<Rightarrow> (case x ''timeOfDay'' of None \<Rightarrow> None | Some t \<Rightarrow> t))"
    by (simp add: new_moodLog_def ctx_field_def Let_def split: option.splits)
  with t(1) obtain x where "b_context b = Some x" "x ''timeOfDay'' = Some (Some t)"
    by (auto split: option.splits)
  with t out same show ?thesis by simp
qed

lemma pre_save_bands:
  "(\<not> truthy (timeOfDay (ml_context this)) \<longrightarrow>
      (timeOfDay (ml_context (pre_save tz this)) = Some ''morning''
         \<longleftrightarrow> 5 \<le> getHours tz (ml_createdAt this) \<and> getHours tz (ml_createdAt this) < 12) \<and>
      (timeOfDay (ml_context (pre_save tz this)) = Some ''afternoon''
         \<longleftrightarrow> 12 \<le> getHours tz (ml_createdAt this) \<and> getHours tz (ml_createdAt this) < 17) \<and>
      (timeOfDay (ml_context (pre_save tz this)) = Some ''evening''
         \<longleftrightarrow> 17 \<le> getHours tz (ml_createdAt this) \<and> getHours tz (ml_createdAt this) < 21) \<and>
      (timeOfDay (ml_context (pre_save tz this)) = Some ''night''
         \<longleftrightarrow> \<not> (5 \<le> getHours tz (ml_createdAt this) \<and> getHours tz (ml_createdAt this) < 21)) \<and>
      (getHours tz (ml_createdAt this) = 5 \<longrightarrow>
         timeOfDay (ml_context (pre_save tz this)) = Some ''morning'') \<and>
      (getHours tz (ml_createdAt this) = 12 \<longrightarrow>
         timeOfDay (ml_context (pre_save tz this)) = Some ''afternoon'') \<and>
      (getHours tz (ml_createdAt this) = 17 \<longrightarrow>
         timeOfDay (ml_context (pre_save tz this)) = Some ''evening'') \<and>
      (getHours tz (ml_createdAt this) = 21 \<or> getHours tz (ml_createdAt this) = 0 \<longrightarrow>
         timeOfDay (ml_context (pre_save tz this)) = Some ''night'')) \<and>
   (truthy (timeOfDay (ml_context this)) \<longrightarrow>
      timeOfDay (ml_context (pre_save tz this)) = timeOfDay (ml_context this) \<and>
      pre_save tz this = this)"
proof (cases "truthy (timeOfDay (ml_context this))")
  case True
  then show ?thesis by (simp add: pre_save_truthy)
next
  case False
  note eq = pre_save_derived [OF False, of tz]
  show ?thesis using False unfolding eq Let_def by auto
qed

text \<open>
  C2. The save hook would give a mood log whose \<open>context.timeOfDay\<close> is missing the band
  of its creation hour (\<open>pre_save_bands\<close>), and the route's comment says so. But
  \<open>save()\<close> validates the document before it runs the hook, and the schema declares
  \<open>context.timeOfDay\<close> as required: a request that passes the validation chain and
  supplies no \<open>timeOfDay\<close> (none, \<open>null\<close> or the empty string) is answered with status
  500, and no log is stored. Whenever \<open>POST /api/moods\<close> stores a log, the caller has
  supplied a \<open>timeOfDay\<close> of the schema's enumeration, and the log carries it unchanged.
\<close>

theorem C2_missing_timeOfDay_rejected:
  "(valid_log_body b \<and>
    \<not> truthy (case b_context b of None \<Rightarrow> None
               | Some x \<Rightarrow> (case x ''timeOfDay'' of None \<Rightarrow> None | Some t \<Rightarrow> t)) \<longrightarrow>
      post_mood schema_validate tz now logs uid b =
        (Failure 500 ''Server error logging mood'', logs)) \<and>
   (post_mood schema_validate tz now logs uid b = (Success c doc, logs') \<longrightarrow>
      (\<exists>x t. b_context b = Some x \<and> x ''timeOfDay'' = Some (Some t) \<and>
             t \<in> set timeOfDay_enum \<and> timeOfDay (ml_context doc) = Some t \<and>
             logs' = logs @ [doc]))"
  using post_mood_schema_missing [of b tz now logs uid]
    post_mood_schema_supplied [of tz now logs uid b c doc logs']
  by blast

lemma example_plain_body_valid: "valid_log_body example_plain_body"
  by (simp add: valid_log_body_def valid_notes_def example_plain_body_def mood_enum_def
      detectionMethod_enum_def)

lemma example_body_run:
  "post_mood schema_validate (\<lambda>_. 0) 120000000 example_logs 7 example_body =
     (Success 201 example_posted, example_logs @ [example_posted])"
  by (simp add: post_mood_def valid_log_body_def valid_notes_def example_body_def
      example_posted_def example_logs_def mood_enum_def detectionMethod_enum_def
      findOne_latest_def new_id_def ctx_field_def truthy_def trim_def is_space_def
      schema_validate_def weather_enum_def timeOfDay_enum_def trigger_enum_def
      pre_save_def Let_def)

theorem C2_missing_timeOfDay_rejected_witness:
  "valid_log_body example_plain_body \<and> b_context example_plain_body = None \<and>
   post_mood schema_validate (\<lambda>_. 0) 50400000 [] 7 example_plain_body =
     (Failure 500 ''Server error logging mood'', []) \<and>
   getHours (\<lambda>_. 0) 50400000 = 14 \<and>
   timeOfDay (ml_context (pre_save (\<lambda>_. 0) example_log)) = Some ''afternoon'' \<and>
   b_context example_body = Some [''timeOfDay'' \<mapsto> Some ''night''] \<and>
   post_mood schema_validate (\<lambda>_. 0) 120000000 example_logs 7 example_body =
     (Success 201 example_posted, example_logs @ [example_posted]) \<and>
   timeOfDay (ml_context example_posted) = Some ''night''"
proof -
  have ctx: "b_context example_plain_body = None"
    by (simp add: example_plain_body_def)
  from C2_missing_timeOfDay_rejected [of example_plain_body "\<lambda>_. 0" 50400000 "[]" 7]
    example_plain_body_valid ctx
  have rejected: "post_mood schema_validate (\<lambda>_. 0) 50400000 [] 7 example_plain_body =
      (Failure 500 ''Server error logging mood'', [])"
    by (simp add: truthy_def)
  have hook: "getHours (\<lambda>_. 0) 50400000 = 14"
    "timeOfDay (ml_context (pre_save (\<lambda>_. 0) example_log)) = Some ''afternoon''"
    by (simp_all add: getHours_def pre_save_def example_log_def truthy_def)
  have body: "b_context example_body = Some [''timeOfDay'' \<mapsto> Some ''night'']"
    by (simp add: example_body_def)
  from C2_missing_timeOfDay_rejected [of example_body "\<lambda>_. 0" 120000000 example_logs 7
      201 example_posted "example_logs @ [example_posted]"] example_body_run body
  have "timeOfDay (ml_context example_posted) = Some ''night''"
    by auto
  with example_plain_body_valid ctx rejected hook body example_body_run
  show ?thesis by simp
qed

text \<open>
  C1. When \<open>POST /api/moods\<close> succeeds, it has appended one document to the
  collection. If the user had no earlier log, the document has no \<open>previousMood\<close>.
  Otherwise its \<open>previousMood\<close> is the mood, intensity and creation time of the log
  that \<open>findOne\<close> with \<open>sort({createdAt: -1})\<close> and \<open>limit(1)\<close> selects, which is a log
  of that user whose creation time no other log of the user exceeds. For a body that
  passes the validation chain the request succeeds, unless Mongoose rejects the
  document, in which case the answer is 500 and nothing is written.
\<close>

theorem C1_previousMood:
  "(post_mood validate tz now logs uid b = (Success c doc, logs') \<longrightarrow>
      c = 201 \<and> logs' = logs @ [doc] \<and> ml_user doc = uid \<and> ml_createdAt doc = now \<and>
      ((\<forall>d\<in>set logs. ml_user d \<noteq> uid) \<longrightarrow> ml_previousMood doc = None) \<and>
      ((\<exists>d\<in>set logs. ml_user d = uid) \<longrightarrow>
         (\<exists>p\<in>set logs. ml_user p = uid \<and>
            (\<forall>q\<in>set logs. ml_user q = uid \<longrightarrow> ml_createdAt q \<le> ml_createdAt p) \<and>
            findOne_latest uid logs = Some p \<and>
            ml_previousMood doc = Some \<lparr> pm_mood = ml_mood p, pm_intensity = ml_intensity p,
                                        pm_timestamp = ml_createdAt p \<rparr>))) \<and>
   (valid_log_body b \<longrightarrow>
      (\<exists>doc. post_mood (\<lambda>d. True) tz now logs uid b = (Success 201 doc, logs @ [doc])) \<and>
      ((\<exists>doc. post_mood validate tz now logs uid b = (Success 201 doc, logs @ [doc])) \<or>
       post_mood validate tz now logs uid b = (Failure 500 ''Server error logging mood'', logs)))"
  using post_mood_success [of validate tz now logs uid b c doc logs']
    post_mood_total [of b tz now logs uid validate]
  by blast

lemma example_body_valid: "valid_log_body example_body"
  by (simp add: valid_log_body_def valid_notes_def example_body_def mood_enum_def
      detectionMethod_enum_def trim_def is_space_def)

lemma example_latest:
  "findOne_latest 7 example_logs = Some (example_logs ! 2)"
  "\<forall>d\<in>set example_logs. ml_user d \<noteq> 8"
  "\<exists>d\<in>set example_logs. ml_user d = 7"
  by (simp_all add: findOne_latest_def example_logs_def)

theorem C1_previousMood_witness:
  "valid_log_body example_body \<and>
   (\<exists>doc. post_mood (\<lambda>d. True) (\<lambda>_. 0) 120000000 example_logs 7 example_body =
            (Success 201 doc, example_logs @ [doc]) \<and>
          ml_previousMood doc =
            Some \<lparr> pm_mood = ''happy'', pm_intensity = 6, pm_timestamp = 115200000 \<rparr>) \<and>
   (\<exists>doc. post_mood (\<lambda>d. True) (\<lambda>_. 0) 120000000 example_logs 8 example_body =
            (Success 201 doc, example_logs @ [doc]) \<and>
          ml_previousMood doc = None)"
proof -
  note v = example_body_valid
  from C1_previousMood [of "\<lambda>d. True" "\<lambda>_. 0" 120000000 example_logs 7 example_body] v
  obtain doc where run: "post_mood (\<lambda>d. True) (\<lambda>_. 0) 120000000 example_logs 7 example_body =
      (Success 201 doc, example_logs @ [doc])" by blast
  from C1_previousMood [of "\<lambda>d. True" "\<lambda>_. 0" 120000000 example_logs 7 example_body 201 doc
      "example_logs @ [doc]"] run example_latest(1,3)
  have "ml_previousMood doc =
      Some \<lparr> pm_mood = ml_mood (example_logs ! 2), pm_intensity = ml_intensity (example_logs ! 2),
             pm_timestamp = ml_createdAt (example_logs ! 2) \<rparr>"
    by auto
  then have "ml_previousMood doc =
      Some \<lparr> pm_mood = ''happy'', pm_intensity = 6, pm_timestamp = 115200000 \<rparr>"
    by (simp add: example_logs_def)
  with run have a: "\<exists>doc. post_mood (\<lambda>d. True) (\<lambda>_. 0) 120000000 example_logs 7 example_body =
            (Success 201 doc, example_logs @ [doc]) \<and>
          ml_previousMood doc =
            Some \<lparr> pm_mood = ''happy'', pm_intensity = 6, pm_timestamp = 115200000 \<rparr>"
    by blast
  from C1_previousMood [of "\<lambda>d. True" "\<lambda>_. 0" 120000000 example_logs 8 example_body] v
  obtain doc' where run': "post_mood (\<lambda>d. True) (\<lambda>_. 0) 120000000 example_logs 8 example_body =
      (Success 201 doc', example_logs @ [doc'])" by blast
  from C1_previousMood [of "\<lambda>d. True" "\<lambda>_. 0" 120000000 example_logs 8 example_body 201 doc'
      "example_logs @ [doc']"] run' example_latest(2)
  have "ml_previousMood doc' = None" by blast
  with run' have b: "\<exists>doc. post_mood (\<lambda>d. True) (\<lambda>_. 0) 120000000 example_logs 8 example_body =
            (Success 201 doc, example_logs @ [doc]) \<and> ml_previousMood doc = None"
    by blast
  from v a b show ?thesis by blast
qed

lemma pre_save_only_context:
  "pre_save tz d = d\<lparr>ml_context := ml_context (pre_save tz d)\<rparr>"
  by (simp add: pre_save_def Let_def)

lemma put_mood_document_frame:
  "ml_id (put_mood_document tz b old) = ml_id old \<and>
   ml_user (put_mood_document tz b old) = ml_user old \<and>
   ml_mood (put_mood_document tz b old) = ml_mood old \<and>
   ml_intensity (put_mood_document tz b old) = ml_intensity old \<and>
   ml_detectionMethod (put_mood_document tz b old) = ml_detectionMethod old \<and>
   ml_confidence (put_mood_document tz b old) = ml_confidence old \<and>
   ml_previousMood (put_mood_document tz b old) = ml_previousMood old \<and>
   ml_sessionId (put_mood_document tz b old) = ml_sessionId old \<and>
   ml_createdAt (put_mood_document tz b old) = ml_createdAt old \<and>
   (put_mood_document tz b old) \<lparr>ml_notes := ml_notes old, ml_context := ml_context old,
        ml_triggers := ml_triggers old\<rparr> = old"
proof -
  define u where "u = (let u1 = (case b_notes b of None \<Rightarrow> old
                | Some n \<Rightarrow> old\<lparr>ml_notes := Some (trim n)\<rparr>);
          u2 = (case b_context b of None \<Rightarrow> u1
                | Some c \<Rightarrow> u1\<lparr>ml_context := merge_context (ml_context old) c\<rparr>);
          u3 = (case b_triggers b of None \<Rightarrow> u2
                | Some t \<Rightarrow> u2\<lparr>ml_triggers := t\<rparr>)
      in u3)"
  have doc: "put_mood_document tz b old = u\<lparr>ml_context := ml_context (pre_save tz u)\<rparr>"
    unfolding put_mood_document_def u_def Let_def by (rule pre_save_only_context)
  have u: "u\<lparr>ml_notes := ml_notes old, ml_context := ml_context old,
             ml_triggers := ml_triggers old\<rparr> = old"
    by (simp add: u_def Let_def split: option.splits)
  have fields: "ml_id u = ml_id old" "ml_user u = ml_user old" "ml_mood u = ml_mood old"
    "ml_intensity u = ml_intensity old" "ml_detectionMethod u = ml_detectionMethod old"
    "ml_confidence u = ml_confidence old" "ml_previousMood u = ml_previousMood old"
    "ml_sessionId u = ml_sessionId old" "ml_createdAt u = ml_createdAt old"
    by (simp_all add: u_def Let_def split: option.splits)
  from u fields show ?thesis unfolding doc by simp
qed

lemma put_mood_outcome:
  assumes run: "put_mood validate tz logs uid i b = (r, logs')"
  shows "logs' = logs \<or>
      (\<exists>old. find (\<lambda>d. ml_id d = i) logs = Some old \<and> ml_user old = uid \<and>
         r = Success 200 (put_mood_document tz b old) \<and>
         logs' = map (\<lambda>d. if ml_id d = i then put_mood_document tz b old else d) logs)"
  using run
  by (auto simp: put_mood_def put_mood_document_def Let_def split: if_splits option.splits)

text \<open>
  C9. Whatever the body of \<open>PUT /api/moods/:id\<close> carries (including values for \<open>mood\<close>,
  \<open>intensity\<close>, \<open>detectionMethod\<close>, \<open>confidence\<close>, \<open>previousMood\<close>, \<open>sessionId\<close>, \<open>user\<close>
  or \<open>createdAt\<close>), the request either leaves the collection as it was, or it comes
  from the owner of the log, succeeds, and writes back under the same \<open>_id\<close> a document
  that differs from the stored one at most in \<open>notes\<close>, \<open>context\<close> and \<open>triggers\<close>:
  every other field, and every other document, is unchanged. An update by the owner
  with valid notes succeeds when Mongoose accepts the document.
\<close>

theorem C9_update_frame:
  "(put_mood validate tz logs uid i b = (r, logs') \<longrightarrow>
      logs' = logs \<or>
      (\<exists>old new. find (\<lambda>d. ml_id d = i) logs = Some old \<and> ml_user old = uid \<and>
         r = Success 200 new \<and>
         logs' = map (\<lambda>d. if ml_id d = i then new else d) logs \<and>
         ml_id new = ml_id old \<and> ml_user new = ml_user old \<and>
         ml_mood new = ml_mood old \<and> ml_intensity new = ml_intensity old \<and>
         ml_detectionMethod new = ml_detectionMethod old \<and>
         ml_confidence new = ml_confidence old \<and>
         ml_previousMood new = ml_previousMood old \<and>
         ml_sessionId new = ml_sessionId old \<and>
         ml_createdAt new = ml_createdAt old \<and>
         new \<lparr>ml_notes := ml_notes old, ml_context := ml_context old,
              ml_triggers := ml_triggers old\<rparr> = old)) \<and>
   (find (\<lambda>d. ml_id d = i) logs = Some old \<and> ml_user old = uid \<and> valid_notes b \<longrightarrow>
      (\<exists>new. put_mood (\<lambda>d. True) tz logs uid i b =
          (Success 200 new, map (\<lambda>d. if ml_id d = i then new else d) logs)))"
proof (rule conjI)
  show "put_mood validate tz logs uid i b = (r, logs') \<longrightarrow>
      logs' = logs \<or>
      (\<exists>old new. find (\<lambda>d. ml_id d = i) logs = Some old \<and> ml_user old = uid \<and>
         r = Success 200 new \<and>
         logs' = map (\<lambda>d. if ml_id d = i then new else d) logs \<and>
         ml_id new = ml_id old \<and> ml_user new = ml_user old \<and>
         ml_mood new = ml_mood old \<and> ml_intensity new = ml_intensity old \<and>
         ml_detectionMethod new = ml_detectionMethod old \<and>
         ml_confidence new = ml_confidence old \<and>
         ml_previousMood new = ml_previousMood old \<and>
         ml_sessionId new = ml_sessionId old \<and>
         ml_createdAt new = ml_createdAt old \<and>
         new \<lparr>ml_notes := ml_notes old, ml_context := ml_context old,
              ml_triggers := ml_triggers old\<rparr> = old)"
  proof
    assume run: "put_mood validate tz logs uid i b = (r, logs')"
    from put_mood_outcome [OF run] put_mood_document_frame [of tz b]
    show "logs' = logs \<or>
      (\<exists>old new. find (\<lambda>d. ml_id d = i) logs = Some old \<and> ml_user old = uid \<and>
         r = Success 200 new \<and>
         logs' = map (\<lambda>d. if ml_id d = i then new else d) logs \<and>
         ml_id new = ml_id old \<and> ml_user new = ml_user old \<and>
         ml_mood new = ml_mood old \<and> ml_intensity new = ml_intensity old \<and>
         ml_detectionMethod new = ml_detectionMethod old \<and>
         ml_confidence new = ml_confidence old \<and>
         ml_previousMood new = ml_previousMood old \<and>
         ml_sessionId new = ml_sessionId old \<and>
         ml_createdAt new = ml_createdAt old \<and>
         new \<lparr>ml_notes := ml_notes old, ml_context := ml_context old,
              ml_triggers := ml_triggers old\<rparr> = old)"
      by blast
  qed
next
  show "find (\<lambda>d. ml_id d = i) logs = Some old \<and> ml_user old = uid \<and> valid_notes b \<longrightarrow>
      (\<exists>new. put_mood (\<lambda>d. True) tz logs uid i b =
          (Success 200 new, map (\<lambda>d. if ml_id d = i then new else d) logs))"
    by (simp add: put_mood_def Let_def)
qed

theorem C9_update_frame_witness:
  "find (\<lambda>d. ml_id d = 2) example_logs = Some (example_logs ! 1) \<and>
   ml_user (example_logs ! 1) = 7 \<and> valid_notes example_body \<and>
   b_mood example_body = Some ''angry'' \<and> b_intensity example_body = Some 9 \<and>
   put_mood (\<lambda>d. True) (\<lambda>_. 0) example_logs 7 2 example_body =
     (Success 200 example_updated, [example_logs ! 0, example_updated, example_logs ! 2]) \<and>
   ml_mood example_updated = ''sad'' \<and> ml_intensity example_updated = 3"
proof -
  have f: "find (\<lambda>d. ml_id d = 2) example_logs = Some (example_logs ! 1)"
    and u: "ml_user (example_logs ! 1) = 7"
    by (simp_all add: example_logs_def)
  have v: "valid_notes example_body"
    by (simp add: valid_notes_def example_body_def trim_def is_space_def)
  have run: "put_mood (\<lambda>d. True) (\<lambda>_. 0) example_logs 7 2 example_body =
     (Success 200 example_updated, [example_logs ! 0, example_updated, example_logs ! 2])"
    by (simp add: put_mood_def valid_notes_def example_body_def example_logs_def
        example_updated_def merge_context_def pre_save_def truthy_def trim_def is_space_def
        Let_def)
  have ne: "[example_logs ! 0, example_updated, example_logs ! 2] \<noteq> example_logs"
    by (simp add: example_logs_def example_updated_def)
  from C9_update_frame [of "\<lambda>d. True" "\<lambda>_. 0" example_logs 7 2 example_body
      "Success 200 example_updated" "[example_logs ! 0, example_updated, example_logs ! 2]"]
    run ne f
  have "ml_mood example_updated = ml_mood (example_logs ! 1) \<and>
        ml_intensity example_updated = ml_intensity (example_logs ! 1)"
    by auto
  then have "ml_mood example_updated = ''sad'' \<and> ml_intensity example_updated = 3"
    by (simp add: example_logs_def)
  with f u v run show ?thesis by (simp add: example_body_def)
qed

section \<open>Properties of songs and playlists\<close>

lemma rec_filter_energy:
  "rec_filter uid q s \<Longrightarrow> q_energy q = Some e \<Longrightarrow>
   of_int (max 1 (e - 2)) \<le> energy s \<and> energy s \<le> of_int (min 10 (e + 2))"
  by (simp add: rec_filter_def)

lemma rec_filter_valence:
  "rec_filter uid q s \<Longrightarrow> q_valence q = Some v \<Longrightarrow>
   of_int (max 1 (v - 2)) \<le> valence s \<and> valence s \<le> of_int (min 10 (v + 2))"
  by (simp add: rec_filter_def)

lemma rec_filter_visible:
  "rec_filter uid q s \<Longrightarrow> song_isPublic s \<or> uploadedBy s = uid"
  by (simp add: rec_filter_def)

lemma set_take_sort_filter:
  "set (take n (sort_key f (filter P xs))) \<subseteq> {x \<in> set xs. P x}"
  using set_take_subset [of n "sort_key f (filter P xs)"] by auto

lemma take_all_sort_filter:
  "length (filter P xs) \<le> n \<Longrightarrow> set (take n (sort_key f (filter P xs))) = {x \<in> set xs. P x}"
  by simp

text \<open>
  C6. \<open>GET /api/songs/recommendations\<close> with a valid query returns only songs of the
  collection that are public or uploaded by the caller; when the query has an energy
  \<open>e\<close> (which validation keeps within 1 and 10), every song returned has its stored
  energy within \<open>max 1 (e - 2)\<close> and \<open>min 10 (e + 2)\<close>, so for \<open>e = 8\<close> within 6 and 10;
  the same band holds for a supplied valence. When no more songs pass the filter than
  the limit admits, the songs returned are exactly those that pass it.
\<close>

theorem C6_energy_band:
  assumes "valid_rec_query q"
  shows "\<exists>out. get_recommendations songs uid q = Success 200 out \<and>
     (\<forall>s\<in>set out. s \<in> set songs \<and> (song_isPublic s \<or> uploadedBy s = uid)) \<and>
     (\<forall>e. q_energy q = Some e \<longrightarrow>
        (\<forall>s\<in>set out. of_int (max 1 (e - 2)) \<le> energy s \<and> energy s \<le> of_int (min 10 (e + 2)))) \<and>
     (q_energy q = Some 8 \<longrightarrow> (\<forall>s\<in>set out. 6 \<le> energy s \<and> energy s \<le> 10)) \<and>
     (\<forall>v. q_valence q = Some v \<longrightarrow>
        (\<forall>s\<in>set out. of_int (max 1 (v - 2)) \<le> valence s \<and> valence s \<le> of_int (min 10 (v + 2)))) \<and>
     (length (filter (rec_filter uid q) songs) \<le> nat (case q_limit q of None \<Rightarrow> 20 | Some l \<Rightarrow> l) \<longrightarrow>
        set out = {s \<in> set songs. rec_filter uid q s})"
proof -
  let ?n = "nat (case q_limit q of None \<Rightarrow> 20 | Some l \<Rightarrow> l)"
  let ?out = "take ?n (sort_key (\<lambda>s. (- song_playCount s, - likes s, - song_createdAt s))
                   (filter (rec_filter uid q) songs))"
  have res: "get_recommendations songs uid q = Success 200 ?out"
    using assms by (simp add: get_recommendations_def Let_def)
  have sub: "set ?out \<subseteq> {s \<in> set songs. rec_filter uid q s}"
    by (rule set_take_sort_filter)
  have vis: "\<forall>s\<in>set ?out. s \<in> set songs \<and> (song_isPublic s \<or> uploadedBy s = uid)"
    using sub rec_filter_visible by blast
  have en: "\<forall>e. q_energy q = Some e \<longrightarrow>
        (\<forall>s\<in>set ?out. of_int (max 1 (e - 2)) \<le> energy s \<and> energy s \<le> of_int (min 10 (e + 2)))"
    using sub rec_filter_energy by blast
  have en8: "q_energy q = Some 8 \<longrightarrow> (\<forall>s\<in>set ?out. 6 \<le> energy s \<and> energy s \<le> 10)"
  proof
    assume e8: "q_energy q = Some 8"
    show "\<forall>s\<in>set ?out. 6 \<le> energy s \<and> energy s \<le> 10"
    proof
      fix s assume "s \<in> set ?out"
      with sub have "rec_filter uid q s" by blast
      from rec_filter_energy [OF this e8] show "6 \<le> energy s \<and> energy s \<le> 10" by simp
    qed
  qed
  have va: "\<forall>v. q_valence q = Some v \<longrightarrow>
        (\<forall>s\<in>set ?out. of_int (max 1 (v - 2)) \<le> valence s \<and> valence s \<le> of_int (min 10 (v + 2)))"
    using sub rec_filter_valence by blast
  have full: "length (filter (rec_filter uid q) songs) \<le> ?n \<longrightarrow>
        set ?out = {s \<in> set songs. rec_filter uid q s}"
    using take_all_sort_filter by blast
  from res vis en en8 va full show ?thesis by blast
qed

lemma example_rec_run:
  "get_recommendations example_songs 7 example_rec_query =
     Success 200 [example_songs ! 4, example_songs ! 0]"
  by (simp add: get_recommendations_def valid_rec_query_def example_rec_query_def
      rec_filter_def example_songs_def Let_def)

theorem C6_energy_band_witness:
  "valid_rec_query example_rec_query \<and> q_energy example_rec_query = Some 8 \<and>
   q_valence example_rec_query = Some 5 \<and>
   get_recommendations example_songs 7 example_rec_query =
     Success 200 [example_songs ! 4, example_songs ! 0] \<and>
   map energy [example_songs ! 4, example_songs ! 0] = [6, 8] \<and>
   map valence [example_songs ! 4, example_songs ! 0] = [3, 6] \<and>
   6 \<le> energy (example_songs ! 4) \<and> energy (example_songs ! 4) \<le> 10 \<and>
   6 \<le> energy (example_songs ! 0) \<and> energy (example_songs ! 0) \<le> 10"
proof -
  have v: "valid_rec_query example_rec_query"
    by (simp add: valid_rec_query_def example_rec_query_def)
  have e: "q_energy example_rec_query = Some 8" "q_valence example_rec_query = Some 5"
    by (simp_all add: example_rec_query_def)
  from C6_energy_band [OF v, of example_songs 7] e(1) example_rec_run
  have "\<forall>s\<in>set [example_songs ! 4, example_songs ! 0]. 6 \<le> energy s \<and> energy s \<le> 10"
    by auto
  then have band: "6 \<le> energy (example_songs ! 4) \<and> energy (example_songs ! 4) \<le> 10 \<and>
      6 \<le> energy (example_songs ! 0) \<and> energy (example_songs ! 0) \<le> 10"
    by simp
  have vals: "map energy [example_songs ! 4, example_songs ! 0] = [6, 8]"
    "map valence [example_songs ! 4, example_songs ! 0] = [3, 6]"
    by (simp_all add: example_songs_def)
  from v e example_rec_run band vals show ?thesis by blast
qed

lemma songFilter_visible: "songFilter uid q s \<Longrightarrow> song_isPublic s \<or> uploadedBy s = uid"
  by (simp add: songFilter_def)

text \<open>
  C7. When \<open>GET /api/playlists/auto-generate\<close> succeeds, the playlist sent back is
  the one appended to the collection, every entry of its song list is the identifier
  of a song of the collection, and every such song is public or uploaded by the
  caller: none is both non-public and uploaded by someone else. (Song identifiers are
  unique, as \<open>_id\<close> is in a collection.)
\<close>

theorem C7_auto_generate_visible:
  assumes "distinct (map song_id songs)"
    and "auto_generate songs playlists uid q = (Success c pl, playlists')"
  shows "playlists' = playlists @ [pl] \<and>
     (\<forall>i\<in>set (pl_songs pl). \<exists>s\<in>set songs. song_id s = i) \<and>
     (\<forall>s\<in>set songs. song_id s \<in> set (pl_songs pl) \<longrightarrow> song_isPublic s \<or> uploadedBy s = uid) \<and>
     \<not> (\<exists>s\<in>set songs. song_id s \<in> set (pl_songs pl) \<and> \<not> song_isPublic s \<and> uploadedBy s \<noteq> uid)"
proof -
  let ?n = "nat (case g_limit q of None \<Rightarrow> 20 | Some l \<Rightarrow> l)"
  let ?found = "take ?n (sort_key (\<lambda>s. (- song_playCount s, - likes s))
                         (filter (songFilter uid q) songs))"
  from assms(2) have pl: "pl_songs pl = map song_id ?found" and st: "playlists' = playlists @ [pl]"
    by (auto simp: auto_generate_def Let_def split: if_splits)
  have sub: "set ?found \<subseteq> {s \<in> set songs. songFilter uid q s}"
    by (rule set_take_sort_filter)
  have a: "\<forall>i\<in>set (pl_songs pl). \<exists>s\<in>set songs. song_id s = i"
    using sub pl by auto
  have b: "song_isPublic s \<or> uploadedBy s = uid"
    if "s \<in> set songs" and "song_id s \<in> set (pl_songs pl)" for s
  proof -
    from that(2) pl obtain t where t: "t \<in> set ?found" and eq: "song_id t = song_id s" by auto
    from t sub have tin: "t \<in> set songs" and tf: "songFilter uid q t" by auto
    from assms(1) tin that(1) eq have "t = s" by (meson distinct_map inj_onD)
    with tf show ?thesis by (simp add: songFilter_visible)
  qed
  from st a b show ?thesis by blast
qed

lemma capitalize_happy: "capitalize ''happy'' = ''Happy''"
  by code_simp

lemma example_gen_name: "playlistName example_gen_query = ''Happy Mix''"
  by (simp add: playlistName_def example_gen_query_def capitalize_happy)

lemma example_gen_run:
  "auto_generate example_songs example_playlists 7 example_gen_query =
     (Success 200 example_generated, example_playlists @ [example_generated])"
  by (simp add: auto_generate_def valid_gen_query_def example_gen_query_def auto_mood_enum_def
      songFilter_def example_songs_def example_playlists_def example_generated_def
      example_gen_name [unfolded example_gen_query_def] new_id_def Let_def)

theorem C7_auto_generate_visible_witness:
  "distinct (map song_id example_songs) \<and>
   auto_generate example_songs example_playlists 7 example_gen_query =
     (Success 200 example_generated, example_playlists @ [example_generated]) \<and>
   pl_songs example_generated = [5, 1, 3] \<and>
   \<not> (\<exists>s\<in>set example_songs. song_id s \<in> set (pl_songs example_generated) \<and>
         \<not> song_isPublic s \<and> uploadedBy s \<noteq> 7) \<and>
   \<not> song_isPublic (example_songs ! 1) \<and> uploadedBy (example_songs ! 1) = 9 \<and>
   moodTags (example_songs ! 1) = [''happy'']"
proof -
  have d: "distinct (map song_id example_songs)" by (simp add: example_songs_def)
  from C7_auto_generate_visible [OF d example_gen_run]
  have "\<not> (\<exists>s\<in>set example_songs. song_id s \<in> set (pl_songs example_generated) \<and>
         \<not> song_isPublic s \<and> uploadedBy s \<noteq> 7)" by blast
  moreover have "pl_songs example_generated = [5, 1, 3]" by (simp add: example_generated_def)
  moreover have "\<not> song_isPublic (example_songs ! 1) \<and> uploadedBy (example_songs ! 1) = 9 \<and>
     moodTags (example_songs ! 1) = [''happy'']" by (simp add: example_songs_def)
  ultimately show ?thesis using d example_gen_run by blast
qed

text \<open>
  C10. For an existing song, \<open>POST /api/songs/:id/play\<close> by any user succeeds, answers
  the play count plus one and stores the song with its play count raised by exactly
  one (and \<open>updatedAt\<close> set by the save hook); no other song changes. This holds also
  for a private song of another user, for which \<open>GET /api/songs/:id\<close> and
  \<open>DELETE /api/songs/:id\<close> answer 403. The same holds for
  \<open>POST /api/playlists/:id/play\<close> against \<open>GET\<close> and \<open>DELETE /api/playlists/:id\<close>.
\<close>

theorem C10_play_count_unchecked:
  "(find (\<lambda>s. song_id s = i) songs = Some song \<longrightarrow>
      post_song_play now songs uid i =
        (Success 200 (song_playCount song + 1),
         map (\<lambda>s. if song_id s = i
                  then song\<lparr>song_playCount := song_playCount song + 1, song_updatedAt := now\<rparr>
                  else s) songs) \<and>
      (\<not> song_isPublic song \<and> uploadedBy song \<noteq> uid \<longrightarrow>
         get_song songs uid i = Failure 403 ''Access denied to this song'' \<and>
         delete_song songs uid i =
           (Failure 403 ''Access denied. You can only delete your own songs'', songs))) \<and>
   (find (\<lambda>p. pl_id p = j) playlists = Some pl \<longrightarrow>
      post_playlist_play playlists uid j =
        (Success 200 (pl_playCount pl + 1),
         map (\<lambda>p. if pl_id p = j then pl\<lparr>pl_playCount := pl_playCount pl + 1\<rparr> else p) playlists) \<and>
      (\<not> pl_isPublic pl \<and> pl_owner pl \<noteq> uid \<longrightarrow>
         get_playlist playlists uid j = Failure 403 ''Access denied to this playlist'' \<and>
         delete_playlist playlists uid j =
           (Failure 403 ''Access denied. You can only delete your own playlists'', playlists)))"
  by (simp add: post_song_play_def post_playlist_play_def get_song_def get_playlist_def
      delete_song_def delete_playlist_def song_incrementPlayCount_def
      playlist_incrementPlayCount_def Let_def)

theorem C10_play_count_unchecked_witness:
  "find (\<lambda>s. song_id s = 2) example_songs = Some (example_songs ! 1) \<and>
   \<not> song_isPublic (example_songs ! 1) \<and> uploadedBy (example_songs ! 1) \<noteq> 7 \<and>
   song_playCount (example_songs ! 1) = 50 \<and>
   fst (post_song_play 1000 example_songs 7 2) = Success 200 51 \<and>
   map song_playCount (snd (post_song_play 1000 example_songs 7 2)) = [10, 51, 5, 99, 10] \<and>
   get_song example_songs 7 2 = Failure 403 ''Access denied to this song'' \<and>
   find (\<lambda>p. pl_id p = 1) example_playlists = Some (example_playlists ! 0) \<and>
   \<not> pl_isPublic (example_playlists ! 0) \<and> pl_owner (example_playlists ! 0) \<noteq> 7 \<and>
   post_playlist_play example_playlists 7 1 =
     (Success 200 5, [(example_playlists ! 0)\<lparr>pl_playCount := 5\<rparr>]) \<and>
   get_playlist example_playlists 7 1 = Failure 403 ''Access denied to this playlist''"
  using C10_play_count_unchecked [of 2 example_songs "example_songs ! 1" 1000 7 1
      example_playlists "example_playlists ! 0"]
  by (simp add: example_songs_def example_playlists_def)

section \<open>Properties of game sessions\<close>

subsection \<open>The achievement rules\<close>

lemma calculateAchievements_earned:
  "calculateAchievements s = s\<lparr>achievements := earned s\<rparr>"
  unfolding calculateAchievements_def earned_def Let_def
  by (cases "js_truthy (gameData s ''isFirstPlay'')";
      cases "score s = maxScore s \<and> maxScore s > 0";
      cases "of_int (duration s) < or_default (gameData s ''expectedDuration'') 300";
      cases "case moodImprovement s of None \<Rightarrow> False | Some m \<Rightarrow> m \<noteq> 0 \<and> m \<ge> 2";
      cases "of_int (score s) > or_default (gameData s ''averageScore'') 0 * (3 / 2)";
      simp)

lemma moodImprovement_achievements:
  "moodImprovement (s\<lparr>achievements := x\<rparr>) = moodImprovement s"
  by (simp add: moodImprovement_def split: option.splits)

lemma moodImprovement_rating:
  "moodImprovement (s\<lparr>rating := r, feedback := f\<rparr>) = moodImprovement s"
  by (simp add: moodImprovement_def split: option.splits)

lemma earned_achievements: "earned (s\<lparr>achievements := x\<rparr>) = earned s"
  by (simp add: earned_def moodImprovement_achievements)

lemma earned_rating: "earned (s\<lparr>rating := r, feedback := f\<rparr>) = earned s"
  by (simp add: earned_def moodImprovement_rating)

lemma calculateAchievements_idem:
  "calculateAchievements (calculateAchievements s) = calculateAchievements s"
  by (simp add: calculateAchievements_earned earned_achievements)

lemma calculateAchievements_fields:
  "gs_moodBefore (calculateAchievements s) = gs_moodBefore s"
  "gs_moodAfter (calculateAchievements s) = gs_moodAfter s"
  "completed (calculateAchievements s) = completed s"
  "gs_id (calculateAchievements s) = gs_id s"
  "gs_sessionId (calculateAchievements s) = gs_sessionId s"
  "gs_user (calculateAchievements s) = gs_user s"
  "gameData (calculateAchievements s) = gameData s"
  "achievements (calculateAchievements s) = earned s"
  by (simp_all add: calculateAchievements_earned)

lemma calculateAchievements_rating:
  "achievements (calculateAchievements (s\<lparr>rating := r, feedback := f\<rparr>)) =
   achievements (calculateAchievements s)"
  by (simp add: calculateAchievements_earned earned_rating)

lemma completeSession_fields:
  "gs_moodBefore (completeSession now after sc gd s) = gs_moodBefore s"
  "gs_moodAfter (completeSession now after sc gd s) = after"
  "completed (completeSession now after sc gd s) = True"
  "gs_id (completeSession now after sc gd s) = gs_id s"
  "gs_sessionId (completeSession now after sc gd s) = gs_sessionId s"
  "gs_user (completeSession now after sc gd s) = gs_user s"
  "gameData (completeSession now after sc gd s) = gameData s ++ gd"
  "score (completeSession now after sc gd s) = sc"
  "maxScore (completeSession now after sc gd s) = maxScore s"
  "duration (completeSession now after sc gd s) = (now - startedAt s) div 1000"
  by (simp_all add: completeSession_def calculateAchievements_earned)


subsection \<open>What each route does to the collection\<close>

lemma find_in_set: "find P xs = Some x \<Longrightarrow> x \<in> set xs"
  by (auto simp: find_Some_iff)

lemma find_holds: "find P xs = Some x \<Longrightarrow> P x"
  by (auto simp: find_Some_iff)

lemma find_map_replace:
  "find P xs = Some old \<Longrightarrow> Q old \<Longrightarrow> P new \<Longrightarrow>
   find P (map (\<lambda>x. if Q x then new else x) xs) = Some new"
  by (induction xs) (auto split: if_splits)

lemma ball_map_replace:
  "\<forall>s\<in>set xs. P s \<Longrightarrow> P y \<Longrightarrow> \<forall>s\<in>set (map (\<lambda>s. if Q s then y else s) xs). P s"
  by auto

lemma start_session_outcome:
  "snd (snd (start_session now games sessions uid gid sb)) = sessions \<or>
   (\<exists>t. snd (snd (start_session now games sessions uid gid sb)) = sessions @ [t] \<and>
        \<not> completed t \<and> gs_moodAfter t = \<lparr> ma_mood = None, ma_intensity = None \<rparr> \<and>
        achievements t = [] \<and>
        1 \<le> mb_intensity (gs_moodBefore t) \<and> mb_intensity (gs_moodBefore t) \<le> 10)"
  by (simp add: start_session_def Let_def valid_start_body_def split: option.splits)


lemma complete_session_unchanged:
  assumes "\<not> valid_complete_body cb \<or>
           find (\<lambda>s. gs_sessionId s = sid \<and> gs_user s = uid) sessions = None \<or>
           (\<exists>old. find (\<lambda>s. gs_sessionId s = sid \<and> gs_user s = uid) sessions = Some old \<and>
                  completed old)"
  shows "snd (complete_session now sessions uid sid cb) = sessions"
  using assms by (auto simp: complete_session_def split: option.splits)

lemma complete_session_done:
  assumes "valid_complete_body cb"
    and "find (\<lambda>s. gs_sessionId s = sid \<and> gs_user s = uid) sessions = Some old"
    and "\<not> completed old"
  shows "snd (complete_session now sessions uid sid cb) =
           map (\<lambda>s. if gs_id s = gs_id old then completion_of now cb old else s) sessions"
  using assms
  by (simp add: complete_session_def valid_complete_body_def completion_of_def Let_def
      split: option.splits)

lemma complete_session_outcome:
  "snd (complete_session now sessions uid sid cb) = sessions \<or>
   (\<exists>old. find (\<lambda>s. gs_sessionId s = sid \<and> gs_user s = uid) sessions = Some old \<and>
      valid_complete_body cb \<and> \<not> completed old \<and>
      snd (complete_session now sessions uid sid cb) =
        map (\<lambda>s. if gs_id s = gs_id old then completion_of now cb old else s) sessions)"
proof (cases "find (\<lambda>s. gs_sessionId s = sid \<and> gs_user s = uid) sessions")
  case None
  then show ?thesis by (simp add: complete_session_unchanged)
next
  case (Some old)
  show ?thesis
  proof (cases "valid_complete_body cb \<and> \<not> completed old")
    case False
    with Some have "snd (complete_session now sessions uid sid cb) = sessions"
      by (intro complete_session_unchanged) blast
    then show ?thesis ..
  next
    case True
    with Some complete_session_done [of cb sid uid sessions old now] show ?thesis by simp
  qed
qed

lemma completion_of_fields:
  assumes "valid_complete_body cb"
  shows "completed (completion_of now cb old)"
    and "gs_sessionId (completion_of now cb old) = gs_sessionId old"
    and "gs_user (completion_of now cb old) = gs_user old"
    and "gs_id (completion_of now cb old) = gs_id old"
    and "gs_moodBefore (completion_of now cb old) = gs_moodBefore old"
    and "gameData (completion_of now cb old) =
           gameData old ++ (case cb_gameData cb of None \<Rightarrow> Map.empty | Some g \<Rightarrow> g)"
    and "ma_intensity (gs_moodAfter (completion_of now cb old)) = cb_intensity cb"
  using assms
  by (auto simp: completion_of_def completeSession_fields valid_complete_body_def
      split: option.splits)

lemma complete_session_success:
  assumes "complete_session now sessions uid sid cb = (Success c d, sessions')"
  shows "\<exists>old. find (\<lambda>s. gs_sessionId s = sid \<and> gs_user s = uid) sessions = Some old \<and>
      valid_complete_body cb \<and> \<not> completed old \<and>
      sessions' = map (\<lambda>s. if gs_id s = gs_id old then completion_of now cb old else s) sessions \<and>
      cd_achievements d = achievements (completion_of now cb old) \<and>
      (\<exists>a. cb_intensity cb = Some a \<and> cd_moodImprovement d = a - mb_intensity (gs_moodBefore old))"
  using assms
  by (auto simp: complete_session_def Let_def completion_of_def completeSession_fields
      split: if_splits option.splits)

lemma latest_completed_in_set:
  assumes "latest_completed uid gid sessions = Some target"
  shows "target \<in> set sessions \<and> gs_user target = uid \<and> gs_game target = gid \<and>
         completed target"
proof -
  let ?ys = "sort_key (\<lambda>s. - (case completedAt s of None \<Rightarrow> 0 | Some t \<Rightarrow> t))
               (filter (\<lambda>s. gs_user s = uid \<and> gs_game s = gid \<and> completed s) sessions)"
  from assms obtain rest where "?ys = target # rest"
    by (auto simp: latest_completed_def split: list.splits)
  then have "target \<in> set ?ys" by (metis list.set_intros(1))
  then show ?thesis by simp
qed

lemma rate_game_outcome:
  "snd (snd (rate_game now games sessions uid gid rb)) = sessions \<or>
   (\<exists>target rt fb. target \<in> set sessions \<and>
      snd (snd (rate_game now games sessions uid gid rb)) =
        map (\<lambda>s. if gs_id s = gs_id target then target\<lparr>rating := rt, feedback := fb\<rparr> else s)
          sessions)"
proof (cases "valid_rate_body rb")
  case False
  then show ?thesis by (simp add: rate_game_def)
next
  case True
  then obtain rt where rt: "rb_rating rb = Some rt"
    by (auto simp: valid_rate_body_def split: option.splits)
  show ?thesis
  proof (cases "find (\<lambda>g. game_id g = gid) games")
    case None
    with True show ?thesis by (simp add: rate_game_def)
  next
    case (Some g)
    note g = this
    show ?thesis
    proof (cases "latest_completed uid (game_id g) sessions")
      case None
      with True g rt show ?thesis by (simp add: rate_game_def)
    next
      case (Some target)
      then have tin: "target \<in> set sessions" by (simp add: latest_completed_in_set)
      have "snd (snd (rate_game now games sessions uid gid rb)) =
          map (\<lambda>s. if gs_id s = gs_id target
                   then target\<lparr>rating := Some rt,
                          feedback := (case rb_feedback rb of None \<Rightarrow> feedback target
                                       | Some f \<Rightarrow> Some (trim f))\<rparr>
                   else s) sessions"
        using True g rt Some by (simp add: rate_game_def Let_def)
      with tin show ?thesis by blast
    qed
  qed
qed

subsection \<open>The invariant\<close>

lemma session_inv_rated:
  "session_inv s \<Longrightarrow> session_inv (s\<lparr>rating := r, feedback := f\<rparr>)"
  unfolding session_inv_def calculateAchievements_rating by simp

lemma session_inv_completeSession:
  assumes "1 \<le> mb_intensity (gs_moodBefore s)" "mb_intensity (gs_moodBefore s) \<le> 10"
    and "1 \<le> a" "a \<le> 10"
  shows "session_inv (completeSession now \<lparr> ma_mood = m, ma_intensity = Some a \<rparr> sc gd s)"
  using assms
  by (simp add: session_inv_def completeSession_def calculateAchievements_idem
      calculateAchievements_fields)

lemma session_inv_completion_of:
  assumes "valid_complete_body cb" and "session_inv old"
  shows "session_inv (completion_of now cb old)"
proof -
  from assms(1) obtain m a sc where b: "cb_mood cb = Some m" "cb_intensity cb = Some a"
    "cb_score cb = Some sc" and a: "1 \<le> a" "a \<le> 10"
    by (auto simp: valid_complete_body_def split: option.splits)
  from assms(2) have "1 \<le> mb_intensity (gs_moodBefore (old\<lparr>maxScore := mx\<rparr>))"
    "mb_intensity (gs_moodBefore (old\<lparr>maxScore := mx\<rparr>)) \<le> 10" for mx
    by (simp_all add: session_inv_def)
  from session_inv_completeSession [OF this a] b show ?thesis
    by (simp add: completion_of_def)
qed

lemma inv_start:
  assumes "\<forall>s\<in>set sessions. session_inv s"
    and "start_session now games sessions uid gid sb = (r, games', sessions')"
  shows "\<forall>s\<in>set sessions'. session_inv s"
proof -
  from assms(2) have eq: "sessions' = snd (snd (start_session now games sessions uid gid sb))"
    by simp
  from start_session_outcome [of now games sessions uid gid sb] show ?thesis
  proof
    assume "snd (snd (start_session now games sessions uid gid sb)) = sessions"
    with eq assms(1) show ?thesis by simp
  next
    assume "\<exists>t. snd (snd (start_session now games sessions uid gid sb)) = sessions @ [t] \<and>
        \<not> completed t \<and> gs_moodAfter t = \<lparr> ma_mood = None, ma_intensity = None \<rparr> \<and>
        achievements t = [] \<and>
        1 \<le> mb_intensity (gs_moodBefore t) \<and> mb_intensity (gs_moodBefore t) \<le> 10"
    then obtain t where t: "sessions' = sessions @ [t]" and "session_inv t"
      using eq by (auto simp: session_inv_def)
    with assms(1) show ?thesis by auto
  qed
qed

lemma inv_complete:
  assumes "\<forall>s\<in>set sessions. session_inv s"
    and "complete_session now sessions uid sid cb = (r, sessions')"
  shows "\<forall>s\<in>set sessions'. session_inv s"
proof -
  from assms(2) have eq: "snd (complete_session now sessions uid sid cb) = sessions'" by simp
  from complete_session_outcome [of now sessions uid sid cb] show ?thesis unfolding eq
  proof
    assume "sessions' = sessions"
    with assms(1) show ?thesis by simp
  next
    assume "\<exists>old. find (\<lambda>s. gs_sessionId s = sid \<and> gs_user s = uid) sessions = Some old \<and>
      valid_complete_body cb \<and> \<not> completed old \<and>
      sessions' = map (\<lambda>s. if gs_id s = gs_id old then completion_of now cb old else s) sessions"
    then obtain old where old: "find (\<lambda>s. gs_sessionId s = sid \<and> gs_user s = uid) sessions = Some old"
      and v: "valid_complete_body cb"
      and s': "sessions' = map (\<lambda>s. if gs_id s = gs_id old then completion_of now cb old else s) sessions"
      by blast
    from old have "old \<in> set sessions" by (rule find_in_set)
    with assms(1) have "session_inv old" by blast
    then have "session_inv (completion_of now cb old)"
      by (rule session_inv_completion_of [OF v])
    with assms(1) show ?thesis unfolding s' by (intro ball_map_replace)
  qed
qed

lemma inv_rate:
  assumes "\<forall>s\<in>set sessions. session_inv s"
    and "rate_game now games sessions uid gid rb = (r, games', sessions')"
  shows "\<forall>s\<in>set sessions'. session_inv s"
proof -
  from assms(2) have eq: "sessions' = snd (snd (rate_game now games sessions uid gid rb))"
    by simp
  from rate_game_outcome [of now games sessions uid gid rb] show ?thesis
  proof
    assume "snd (snd (rate_game now games sessions uid gid rb)) = sessions"
    with eq assms(1) show ?thesis by simp
  next
    assume "\<exists>target rt fb. target \<in> set sessions \<and>
      snd (snd (rate_game now games sessions uid gid rb)) =
        map (\<lambda>s. if gs_id s = gs_id target then target\<lparr>rating := rt, feedback := fb\<rparr> else s)
          sessions"
    then obtain target rt fb where tin: "target \<in> set sessions"
      and s': "sessions' = map (\<lambda>s. if gs_id s = gs_id target
                 then target\<lparr>rating := rt, feedback := fb\<rparr> else s) sessions"
      using eq by auto
    from tin assms(1) have "session_inv (target\<lparr>rating := rt, feedback := fb\<rparr>)"
      by (simp add: session_inv_rated)
    with assms(1) show ?thesis unfolding s' by (intro ball_map_replace)
  qed
qed

lemma reachable_inv: "reachable games sessions \<Longrightarrow> \<forall>s\<in>set sessions. session_inv s"
proof (induction rule: reachable.induct)
  case (init games)
  show ?case by simp
next
  case (start games sessions now uid gid sb r games' sessions')
  then show ?case using inv_start by blast
next
  case (complete games sessions now uid sid cb r' sessions')
  then show ?case using inv_complete by blast
next
  case (rate games sessions now uid gid rb r'' games' sessions')
  then show ?case using inv_rate by blast
qed

lemma session_inv_moodImprovement:
  assumes "session_inv s"
  shows "(\<not> completed s \<longrightarrow> moodImprovement s = None) \<and>
         (completed s \<longrightarrow>
            (\<exists>a. ma_intensity (gs_moodAfter s) = Some a \<and>
                 moodImprovement s = Some (a - mb_intensity (gs_moodBefore s))))"
  using assms
  by (auto simp: session_inv_def moodImprovement_def split: option.splits if_splits)


subsection \<open>The example run\<close>

lemma example_sessions1_eval:
  "start_session 1000 example_games [] 7 3 example_start =
     (Success 201 \<lparr> sd_sessionId = (7, 3, 1000), sd_game = 3, sd_difficulty = ''easy'' \<rparr>,
      example_games1, example_sessions1)"
  "example_sessions1 = [\<lparr> gs_id = 1, gs_user = 7, gs_game = 3, gs_sessionId = (7, 3, 1000),
      gs_moodBefore = \<lparr> mb_mood = ''sad'', mb_intensity = 4 \<rparr>,
      gs_moodAfter = \<lparr> ma_mood = None, ma_intensity = None \<rparr>,
      score = 0, maxScore = 0, duration = 0, completed = False, completionPercentage = 0,
      gs_difficulty = ''easy'',
      gameData = [''isFirstPlay'' \<mapsto> JBool True, ''expectedDuration'' \<mapsto> JNum 300],
      achievements = [], rating = None, feedback = None, deviceType = ''unknown'',
      startedAt = 1000, completedAt = None, gs_createdAt = 1000 \<rparr>]"
  "example_games1 = [\<lparr> game_id = 3, game_isActive = True, game_difficulty = ''easy'',
     estimatedDuration = 5, game_playCount = 1, averageRating = 0, ratingCount = 0,
     game_updatedAt = 1000 \<rparr>]"
  by (simp_all add: example_sessions1_def example_games1_def start_session_def example_games_def example_start_def
      valid_start_body_def session_mood_enum_def new_id_def game_incrementPlayCount_def Let_def)

lemma example_sessions2_eval:
  "complete_session 61000 example_sessions1 7 (7, 3, 1000) example_complete =
     (Success 200 \<lparr> cd_sessionId = (7, 3, 1000), cd_score = 100, cd_maxScore = 100,
        cd_moodImprovement = 3,
        cd_achievements = [''first-play'', ''perfect-score'', ''quick-finish'', ''mood-improver'',
          ''high-scorer''],
        cd_duration = 60 \<rparr>, example_sessions2)"
  "example_sessions2 = [\<lparr> gs_id = 1, gs_user = 7, gs_game = 3, gs_sessionId = (7, 3, 1000),
      gs_moodBefore = \<lparr> mb_mood = ''sad'', mb_intensity = 4 \<rparr>,
      gs_moodAfter = \<lparr> ma_mood = Some ''calm'', ma_intensity = Some 7 \<rparr>,
      score = 100, maxScore = 100, duration = 60, completed = True, completionPercentage = 100,
      gs_difficulty = ''easy'',
      gameData = [''isFirstPlay'' \<mapsto> JBool True, ''expectedDuration'' \<mapsto> JNum 300],
      achievements = [''first-play'', ''perfect-score'', ''quick-finish'', ''mood-improver'',
          ''high-scorer''],
      rating = None, feedback = None, deviceType = ''unknown'',
      startedAt = 1000, completedAt = Some 61000, gs_createdAt = 1000 \<rparr>]"
  by (simp_all add: example_sessions2_def example_sessions1_eval(2) complete_session_def example_complete_def
      valid_complete_body_def session_mood_enum_def completeSession_def
      calculateAchievements_def moodImprovement_def or_default_def Let_def)

lemma example_sessions3_eval:
  "start_session 100000 example_games1 example_sessions2 7 3 example_start =
     (Success 201 \<lparr> sd_sessionId = (7, 3, 100000), sd_game = 3, sd_difficulty = ''easy'' \<rparr>,
      example_games3, example_sessions3)"
  "example_sessions3 = example_sessions2 @ [\<lparr> gs_id = 2, gs_user = 7, gs_game = 3, gs_sessionId = (7, 3, 100000),
      gs_moodBefore = \<lparr> mb_mood = ''sad'', mb_intensity = 4 \<rparr>,
      gs_moodAfter = \<lparr> ma_mood = None, ma_intensity = None \<rparr>,
      score = 0, maxScore = 0, duration = 0, completed = False, completionPercentage = 0,
      gs_difficulty = ''easy'',
      gameData = [''isFirstPlay'' \<mapsto> JBool False, ''expectedDuration'' \<mapsto> JNum 300],
      achievements = [], rating = None, feedback = None, deviceType = ''unknown'',
      startedAt = 100000, completedAt = None, gs_createdAt = 100000 \<rparr>]"
  by (simp_all add: example_sessions3_def example_games3_def start_session_def example_sessions2_eval(2) example_sessions1_eval(3)
      example_start_def valid_start_body_def session_mood_enum_def new_id_def Let_def)

lemma example_sessions4_eval:
  "complete_session 900000 example_sessions3 7 (7, 3, 100000) example_complete_again =
     (Success 200 \<lparr> cd_sessionId = (7, 3, 100000), cd_score = 1, cd_maxScore = 100,
        cd_moodImprovement = 1, cd_achievements = [''first-play'', ''high-scorer''],
        cd_duration = 800 \<rparr>, example_sessions4)"
  by (simp add: example_sessions4_def example_sessions3_eval(2) example_sessions2_eval(2) complete_session_def
      example_complete_again_def valid_complete_body_def session_mood_enum_def
      completeSession_def calculateAchievements_def moodImprovement_def or_default_def Let_def)

lemma reachable_examples:
  "reachable example_games1 example_sessions1" "reachable example_games1 example_sessions2" "reachable example_games3 example_sessions3"
  "reachable example_games3 example_sessions4"
proof -
  show r1: "reachable example_games1 example_sessions1"
    by (rule reachable.start [OF reachable.init example_sessions1_eval(1)])
  show r2: "reachable example_games1 example_sessions2"
    by (rule reachable.complete [OF r1 example_sessions2_eval(1)])
  show r3: "reachable example_games3 example_sessions3"
    by (rule reachable.start [OF r2 example_sessions3_eval(1)])
  show "reachable example_games3 example_sessions4"
    by (rule reachable.complete [OF r3 example_sessions4_eval])
qed

lemma example_sessions4_values:
  "map completed example_sessions3 = [True, False]"
  "map moodImprovement example_sessions3 = [Some 3, None]"
  "map achievements example_sessions3 =
     [ [''first-play'', ''perfect-score'', ''quick-finish'', ''mood-improver'', ''high-scorer''], [] ]"
  "find (\<lambda>s. gs_sessionId s = (7, 3, 1000) \<and> gs_user s = 7) example_sessions2 =
     Some (example_sessions2 ! 0)"
  "completed (example_sessions2 ! 0)"
  by (simp_all add: example_sessions3_eval(2) example_sessions2_eval(2) moodImprovement_def)

lemma example_complete_again_valid: "valid_complete_body example_complete_again"
  by (simp add: valid_complete_body_def example_complete_again_def session_mood_enum_def)

subsection \<open>Completion\<close>

text \<open>
  C3. When the session that \<open>findOne({sessionId, user})\<close> finds is already completed,
  \<open>PUT /api/games/sessions/:sessionId/complete\<close> fails with status 400 and leaves the
  collection of sessions as it was, so that no field of any session changes; for a
  body that passes validation the message is ``Game session already completed''.
  In particular, after a completion request has succeeded, the session it completed is
  the one found, it is completed and has the achievements that were answered, and a
  second request is rejected in this way.
\<close>

theorem C3_second_complete_rejected:
  "(find (\<lambda>s. gs_sessionId s = sid \<and> gs_user s = uid) sessions = Some s \<and> completed s \<longrightarrow>
      complete_session now sessions uid sid b =
        (Failure 400 (if valid_complete_body b then ''Game session already completed''
                      else ''Validation failed''), sessions)) \<and>
   (complete_session now0 sessions0 uid sid b0 = (Success c d, sessions) \<longrightarrow>
      (\<exists>s. find (\<lambda>s. gs_sessionId s = sid \<and> gs_user s = uid) sessions = Some s \<and> completed s \<and>
           cd_achievements d = achievements s \<and>
           complete_session now sessions uid sid b =
             (Failure 400 (if valid_complete_body b then ''Game session already completed''
                           else ''Validation failed''), sessions)))"
proof (intro conjI impI)
  assume "find (\<lambda>s. gs_sessionId s = sid \<and> gs_user s = uid) sessions = Some s \<and> completed s"
  then show "complete_session now sessions uid sid b =
        (Failure 400 (if valid_complete_body b then ''Game session already completed''
                      else ''Validation failed''), sessions)"
    by (simp add: complete_session_def)
next
  assume first: "complete_session now0 sessions0 uid sid b0 = (Success c d, sessions)"
  from complete_session_success [OF first] obtain old where
    old: "find (\<lambda>s. gs_sessionId s = sid \<and> gs_user s = uid) sessions0 = Some old"
    and v: "valid_complete_body b0"
    and s': "sessions = map (\<lambda>s. if gs_id s = gs_id old then completion_of now0 b0 old else s) sessions0"
    and ach: "cd_achievements d = achievements (completion_of now0 b0 old)"
    by blast
  let ?new = "completion_of now0 b0 old"
  from find_holds [OF old] have "gs_sessionId old = sid \<and> gs_user old = uid" .
  then have pnew: "gs_sessionId ?new = sid \<and> gs_user ?new = uid"
    by (simp add: completion_of_fields [OF v])
  have found: "find (\<lambda>s. gs_sessionId s = sid \<and> gs_user s = uid) sessions = Some ?new"
    unfolding s' by (rule find_map_replace [OF old _ pnew]) simp
  have cmp: "completed ?new" by (rule completion_of_fields [OF v])
  from found cmp have "complete_session now sessions uid sid b =
        (Failure 400 (if valid_complete_body b then ''Game session already completed''
                      else ''Validation failed''), sessions)"
    by (simp add: complete_session_def)
  with found cmp ach show "\<exists>s. find (\<lambda>s. gs_sessionId s = sid \<and> gs_user s = uid) sessions = Some s \<and>
      completed s \<and> cd_achievements d = achievements s \<and>
      complete_session now sessions uid sid b =
        (Failure 400 (if valid_complete_body b then ''Game session already completed''
                      else ''Validation failed''), sessions)"
    by blast
qed

theorem C3_second_complete_rejected_witness:
  "find (\<lambda>s. gs_sessionId s = (7, 3, 1000) \<and> gs_user s = 7) example_sessions2 =
     Some (example_sessions2 ! 0) \<and>
   completed (example_sessions2 ! 0) \<and>
   valid_complete_body example_complete_again \<and>
   fst (complete_session 61000 example_sessions1 7 (7, 3, 1000) example_complete) =
     Success 200 \<lparr> cd_sessionId = (7, 3, 1000), cd_score = 100, cd_maxScore = 100,
        cd_moodImprovement = 3,
        cd_achievements = [''first-play'', ''perfect-score'', ''quick-finish'', ''mood-improver'',
          ''high-scorer''],
        cd_duration = 60 \<rparr> \<and>
   snd (complete_session 61000 example_sessions1 7 (7, 3, 1000) example_complete) =
     example_sessions2 \<and>
   complete_session 99000 example_sessions2 7 (7, 3, 1000) example_complete_again =
     (Failure 400 ''Game session already completed'', example_sessions2)"
  using C3_second_complete_rejected [where sid = "(7, 3, 1000)" and uid = 7
      and sessions = example_sessions2 and s = "example_sessions2 ! 0" and now = 99000
      and b = example_complete_again and ?now0.0 = 61000 and ?sessions0.0 = example_sessions1
      and ?b0.0 = example_complete and c = 200]
    example_sessions4_values(4,5) example_complete_again_valid example_sessions2_eval(1)
  by simp

text \<open>
  C8. In every state that the session routes can produce, a session that is not
  completed has \<open>moodImprovement\<close> null, and a completed session has it equal to
  \<open>moodAfter.intensity - moodBefore.intensity\<close>. A successful completion request turns a
  session without \<open>moodImprovement\<close> into one whose \<open>moodImprovement\<close> is the value
  answered to the client, the difference of the intensity sent and the stored
  intensity before.
\<close>

theorem C8_moodImprovement:
  assumes "reachable games sessions"
  shows "(\<forall>s\<in>set sessions.
           (\<not> completed s \<longrightarrow> moodImprovement s = None) \<and>
           (completed s \<longrightarrow>
              (\<exists>a. ma_intensity (gs_moodAfter s) = Some a \<and>
                   moodImprovement s = Some (a - mb_intensity (gs_moodBefore s))))) \<and>
         (\<forall>now uid sid b c d sessions'.
            complete_session now sessions uid sid b = (Success c d, sessions') \<longrightarrow>
              (\<exists>old\<in>set sessions. \<exists>new\<in>set sessions'.
                  gs_sessionId old = sid \<and> gs_user old = uid \<and> moodImprovement old = None \<and>
                  gs_id new = gs_id old \<and> completed new \<and>
                  ma_intensity (gs_moodAfter new) = cb_intensity b \<and>
                  gs_moodBefore new = gs_moodBefore old \<and>
                  moodImprovement new = Some (cd_moodImprovement d)))"
proof (intro conjI allI impI)
  from reachable_inv [OF assms] show "\<forall>s\<in>set sessions.
           (\<not> completed s \<longrightarrow> moodImprovement s = None) \<and>
           (completed s \<longrightarrow>
              (\<exists>a. ma_intensity (gs_moodAfter s) = Some a \<and>
                   moodImprovement s = Some (a - mb_intensity (gs_moodBefore s))))"
    using session_inv_moodImprovement by blast
next
  fix now uid sid b c d sessions'
  assume run: "complete_session now sessions uid sid b = (Success c d, sessions')"
  from complete_session_success [OF run] obtain old a where
    old: "find (\<lambda>s. gs_sessionId s = sid \<and> gs_user s = uid) sessions = Some old"
    and v: "valid_complete_body b" and nc: "\<not> completed old"
    and s': "sessions' = map (\<lambda>s. if gs_id s = gs_id old then completion_of now b old else s) sessions"
    and a: "cb_intensity b = Some a"
    and imp: "cd_moodImprovement d = a - mb_intensity (gs_moodBefore old)"
    by blast
  let ?new = "completion_of now b old"
  have oin: "old \<in> set sessions" using old by (rule find_in_set)
  have key: "gs_sessionId old = sid \<and> gs_user old = uid" using find_holds [OF old] .
  from reachable_inv [OF assms] oin have inv: "session_inv old" by blast
  with nc have none: "moodImprovement old = None"
    using session_inv_moodImprovement by blast
  have nin: "?new \<in> set sessions'" unfolding s' using oin by force
  from inv have "session_inv ?new" by (rule session_inv_completion_of [OF v])
  with completion_of_fields [OF v, of now old] a imp
  have "moodImprovement ?new = Some (cd_moodImprovement d)"
    using session_inv_moodImprovement [of ?new] by auto
  with oin nin key none completion_of_fields [OF v, of now old]
  show "\<exists>old\<in>set sessions. \<exists>new\<in>set sessions'.
                  gs_sessionId old = sid \<and> gs_user old = uid \<and> moodImprovement old = None \<and>
                  gs_id new = gs_id old \<and> completed new \<and>
                  ma_intensity (gs_moodAfter new) = cb_intensity b \<and>
                  gs_moodBefore new = gs_moodBefore old \<and>
                  moodImprovement new = Some (cd_moodImprovement d)"
    by blast
qed

theorem C8_moodImprovement_witness:
  "reachable example_games3 example_sessions3 \<and>
   map completed example_sessions3 = [True, False] \<and>
   map moodImprovement example_sessions3 = [Some 3, None] \<and>
   complete_session 900000 example_sessions3 7 (7, 3, 100000) example_complete_again =
     (Success 200 \<lparr> cd_sessionId = (7, 3, 100000), cd_score = 1, cd_maxScore = 100,
        cd_moodImprovement = 1, cd_achievements = [''first-play'', ''high-scorer''],
        cd_duration = 800 \<rparr>, example_sessions4) \<and>
   (\<exists>new\<in>set example_sessions4. completed new \<and> moodImprovement new = Some 1)"
proof -
  note r = reachable_examples(3)
  note step = C8_moodImprovement [OF r, THEN conjunct2, rule_format, OF example_sessions4_eval]
  then obtain new where "new \<in> set example_sessions4" and "completed new"
    and "moodImprovement new =
      Some (cd_moodImprovement \<lparr> cd_sessionId = (7, 3, 100000), cd_score = 1,
        cd_maxScore = 100, cd_moodImprovement = 1,
        cd_achievements = [''first-play'', ''high-scorer''], cd_duration = 800 \<rparr>)"
    by blast
  then have "\<exists>new\<in>set example_sessions4. completed new \<and> moodImprovement new = Some 1"
    by auto
  with r example_sessions4_values(1,2) example_sessions4_eval show ?thesis by blast
qed




section \<open>Properties of the mood statistics\<close>

subsection \<open>Rounding\<close>

lemma pow2_pos: "0 < pow2 e"
  by (simp add: pow2_def)

lemma pow2_diff: "pow2 (k - 52) = pow2 k / 2 ^ 52"
  by (simp add: pow2_def power_int_diff)

lemma binade_le:
  assumes "0 < x"
  shows "pow2 (binade x) \<le> x"
proof (cases "1 \<le> x")
  case True
  then have f: "0 < \<lfloor>x\<rfloor>" by linarith
  from bitlen_bounds [OF f] have "2 ^ nat (bitlen \<lfloor>x\<rfloor> - 1) \<le> \<lfloor>x\<rfloor>" by simp
  then have "(of_int (2 ^ nat (bitlen \<lfloor>x\<rfloor> - 1)) :: rat) \<le> of_int \<lfloor>x\<rfloor>"
    by (simp only: of_int_le_iff)
  also have "\<dots> \<le> x" by simp
  finally have "(2::rat) ^ nat (bitlen \<lfloor>x\<rfloor> - 1) \<le> x" by simp
  moreover have "1 \<le> bitlen \<lfloor>x\<rfloor>" using f by (simp add: bitlen_alt_def)
  ultimately show ?thesis using True by (simp add: binade_def pow2_def power_int_def)
next
  case False
  with assms have "1 < 1 / x" by simp
  then have c: "0 < \<lceil>1 / x\<rceil> - 1" by linarith
  let ?k = "bitlen (\<lceil>1 / x\<rceil> - 1)"
  from bitlen_bounds [OF c] have "\<lceil>1 / x\<rceil> - 1 < 2 ^ nat ?k" by simp
  then have "\<lceil>1 / x\<rceil> \<le> 2 ^ nat ?k" by simp
  then have "(of_int \<lceil>1 / x\<rceil> :: rat) \<le> of_int (2 ^ nat ?k)" by (simp only: of_int_le_iff)
  then have "1 / x \<le> 2 ^ nat ?k" by (simp add: ceiling_le_iff)
  then have "1 / 2 ^ nat ?k \<le> x" using assms by (simp add: field_simps)
  moreover have "1 \<le> ?k" using c by (simp add: bitlen_alt_def)
  ultimately show ?thesis
    using False by (simp add: binade_def pow2_def power_int_def field_simps)
qed

lemma binade_less:
  assumes "0 < x"
  shows "x < pow2 (binade x + 1)"
proof (cases "1 \<le> x")
  case True
  then have f: "0 < \<lfloor>x\<rfloor>" by linarith
  from bitlen_bounds [OF f] have "\<lfloor>x\<rfloor> + 1 \<le> 2 ^ nat (bitlen \<lfloor>x\<rfloor>)" by simp
  then have "(of_int (\<lfloor>x\<rfloor> + 1) :: rat) \<le> of_int (2 ^ nat (bitlen \<lfloor>x\<rfloor>))"
    by (simp only: of_int_le_iff)
  moreover have "x < of_int (\<lfloor>x\<rfloor> + 1)" by linarith
  ultimately have "x < 2 ^ nat (bitlen \<lfloor>x\<rfloor>)" by simp
  moreover have "0 \<le> bitlen \<lfloor>x\<rfloor>" by (rule bitlen_nonneg)
  ultimately show ?thesis using True by (simp add: binade_def pow2_def power_int_def)
next
  case False
  with assms have "1 < 1 / x" by simp
  then have c: "0 < \<lceil>1 / x\<rceil> - 1" by linarith
  let ?k = "bitlen (\<lceil>1 / x\<rceil> - 1)"
  have k: "1 \<le> ?k" using c by (simp add: bitlen_alt_def)
  from bitlen_bounds [OF c] have "2 ^ nat (?k - 1) \<le> \<lceil>1 / x\<rceil> - 1" by simp
  then have "(of_int (2 ^ nat (?k - 1)) :: rat) \<le> of_int (\<lceil>1 / x\<rceil> - 1)"
    by (simp only: of_int_le_iff)
  moreover have "of_int (\<lceil>1 / x\<rceil> - 1) < 1 / x" by linarith
  ultimately have "2 ^ nat (?k - 1) < 1 / x" by simp
  then have lt: "x < 1 / 2 ^ nat (?k - 1)" using assms by (simp add: field_simps)
  show ?thesis
  proof (cases "?k = 1")
    case True
    with lt False show ?thesis by (simp add: binade_def pow2_def)
  next
    case k1: False
    with k have "- ?k + 1 < 0" by simp
    moreover have "nat (?k - 1) = nat (- (- ?k + 1))" by simp
    ultimately show ?thesis using lt False
      by (simp add: binade_def pow2_def power_int_def field_simps)
  qed
qed

lemma round_even_error: "\<bar>of_int (round_even r) - r\<bar> \<le> 1 / 2"
  unfolding round_even_def Let_def by (auto simp: abs_if) linarith+

text \<open>Rounding to a double changes a number by at most half a unit in the last place.\<close>

lemma round_double_error: "\<bar>round_double x - x\<bar> \<le> \<bar>x\<bar> / 2 ^ 53"
proof (cases "x = 0")
  case True
  then show ?thesis by (simp add: round_double_def)
next
  case False
  define a where "a = \<bar>x\<bar>"
  define u where "u = pow2 (binade a - 52)"
  define m where "m = round_even (a / u)"
  have a: "0 < a" using False by (simp add: a_def)
  have u: "0 < u" by (simp add: u_def pow2_pos)
  have rd: "round_double x = sgn x * of_int m * u"
    using False by (simp add: round_double_def Let_def a_def u_def m_def)
  have x: "x = sgn x * a" by (simp add: a_def abs_sgn mult.commute sgn_mult_abs)
  have "round_double x - x = sgn x * (of_int m * u - a)"
    by (subst x, subst rd) (simp add: algebra_simps)
  then have "\<bar>round_double x - x\<bar> = \<bar>of_int m * u - a\<bar>"
    using False by (simp add: abs_mult abs_sgn_eq)
  also have "of_int m * u - a = u * (of_int m - a / u)"
    using u by (simp add: field_simps)
  also have "\<bar>u * (of_int m - a / u)\<bar> = u * \<bar>of_int m - a / u\<bar>"
    using u by (simp add: abs_mult)
  also have "\<dots> \<le> u * (1 / 2)"
    using u round_even_error [of "a / u"] unfolding m_def by (intro mult_left_mono) simp_all
  also have "u = pow2 (binade a) / 2 ^ 52" by (simp add: u_def pow2_diff)
  also have "pow2 (binade a) / 2 ^ 52 * (1 / 2) \<le> a / 2 ^ 52 * (1 / 2)"
    using binade_le [OF a] by (simp add: divide_right_mono)
  finally show ?thesis by (simp add: a_def)
qed

text \<open>The two roundings of \<open>(count / total) * 100\<close>.\<close>

lemma percentage_error:
  assumes x: "0 \<le> x"
  shows "\<bar>round_double (round_double x * 100) - x * 100\<bar> \<le> x * 100 / 2 ^ 51"
proof -
  define u :: rat where "u = 1 / 2 ^ 53"
  define q where "q = round_double x"
  define r where "r = round_double (q * 100)"
  have u: "0 \<le> u" "u \<le> 1" by (simp_all add: u_def)
  have e1: "\<bar>q - x\<bar> \<le> x * u"
    using round_double_error [of x] x by (simp add: q_def u_def)
  with x have q: "\<bar>q\<bar> \<le> x + x * u" by linarith
  have "\<bar>r - q * 100\<bar> \<le> \<bar>q * 100\<bar> * u"
    using round_double_error [of "q * 100"] by (simp add: r_def u_def)
  also have "\<bar>q * 100\<bar> * u = \<bar>q\<bar> * (100 * u)" by (simp add: abs_mult)
  also have "\<dots> \<le> (x + x * u) * (100 * u)"
    using q u by (intro mult_right_mono) simp_all
  finally have e2: "\<bar>r - q * 100\<bar> \<le> (x + x * u) * (100 * u)" .
  have "\<bar>q * 100 - x * 100\<bar> = \<bar>q - x\<bar> * 100"
    by (simp only: left_diff_distrib [symmetric] abs_mult)
  with abs_triangle_ineq [of "r - q * 100" "q * 100 - x * 100"]
  have "\<bar>r - x * 100\<bar> \<le> \<bar>r - q * 100\<bar> + 100 * \<bar>q - x\<bar>" by simp
  also have "\<dots> \<le> (x + x * u) * (100 * u) + 100 * (x * u)"
    using e1 e2 by (intro add_mono mult_left_mono) simp_all
  also have "\<dots> = (x * 100 * u) * (2 + u)" by (simp add: algebra_simps)
  also have "\<dots> \<le> (x * 100 * u) * 4"
    using x u by (intro mult_left_mono) simp_all
  also have "\<dots> = x * 100 / 2 ^ 51" by (simp add: u_def)
  finally show ?thesis by (simp add: r_def q_def)
qed

lemma sum_list_abs_diff:
  fixes f g h :: "'a \<Rightarrow> rat"
  assumes "\<forall>r\<in>set rows. \<bar>f r - g r\<bar> \<le> h r"
  shows "\<bar>sum_list (map f rows) - sum_list (map g rows)\<bar> \<le> sum_list (map h rows)"
  using assms
proof (induction rows)
  case Nil
  show ?case by simp
next
  case (Cons r rows)
  then have "\<bar>f r - g r\<bar> \<le> h r"
    and "\<bar>sum_list (map f rows) - sum_list (map g rows)\<bar> \<le> sum_list (map h rows)"
    by simp_all
  then show ?case by (simp only: list.map sum_list.Cons)
qed

lemma sum_list_divide_const:
  fixes f :: "'a \<Rightarrow> rat"
  shows "sum_list (map (\<lambda>r. f r / c) rows) = sum_list (map f rows) / c"
  by (induction rows) (simp_all add: add_divide_distrib)

subsection \<open>The aggregation\<close>

lemma sum_list_indicator:
  "distinct ms \<Longrightarrow> a \<in> set ms \<Longrightarrow> (\<Sum>m\<leftarrow>ms. if a = m then 1 else 0) = (1::nat)"
  by (induction ms) auto

lemma sum_list_zero: "(\<Sum>m\<leftarrow>ms. (0::nat)) = 0"
  by (induction ms) auto

lemma sum_length_filter:
  "distinct ms \<Longrightarrow> f ` set xs \<subseteq> set ms \<Longrightarrow>
   (\<Sum>m\<leftarrow>ms. length (filter (\<lambda>x. f x = m) xs)) = length xs"
proof (induction xs)
  case Nil
  show ?case by (simp add: sum_list_zero)
next
  case (Cons y ys)
  have "(\<Sum>m\<leftarrow>ms. length (filter (\<lambda>x. f x = m) (y # ys))) =
        (\<Sum>m\<leftarrow>ms. (if f y = m then 1 else 0) + length (filter (\<lambda>x. f x = m) ys))"
    by (rule arg_cong [where f = sum_list]) simp
  also have "\<dots> = (\<Sum>m\<leftarrow>ms. if f y = m then 1 else 0) + (\<Sum>m\<leftarrow>ms. length (filter (\<lambda>x. f x = m) ys))"
    by (simp add: sum_list_addf)
  also have "\<dots> = 1 + length ys"
    using Cons by (simp add: sum_list_indicator)
  finally show ?case by simp
qed

lemma sum_list_insort_key:
  "sum_list (map f (insort_key k x xs)) = f x + sum_list (map f xs)"
  for f :: "'a \<Rightarrow> 'b::comm_monoid_add"
  by (induction xs) (simp_all add: add.left_commute)

lemma sum_list_sort_key:
  "sum_list (map f (sort_key k xs)) = sum_list (map f xs)"
  for f :: "'a \<Rightarrow> 'b::comm_monoid_add"
  by (induction xs) (simp_all add: sum_list_insort_key)

lemma group_by_mood_total: "sum_list (map fr_count (group_by_mood ds)) = length ds"
proof -
  have "sum_list (map fr_count (group_by_mood ds)) =
        (\<Sum>m\<leftarrow>remdups (map ml_mood ds). length (filter (\<lambda>d. ml_mood d = m) ds))"
    by (simp add: group_by_mood_def Let_def comp_def)
  also have "\<dots> = length ds"
    by (rule sum_length_filter) simp_all
  finally show ?thesis .
qed

lemma group_by_mood_ids: "map fr_id (group_by_mood ds) = remdups (map ml_mood ds)"
  by (simp add: group_by_mood_def Let_def comp_def)

lemma getMoodFrequency_total:
  "sum_list (map fr_count (getMoodFrequency tz tzl now logs uid days)) =
   length (match_window uid (startDate tz tzl now days) logs)"
  by (simp add: getMoodFrequency_def sum_list_sort_key group_by_mood_total)

text \<open>One row for each mood that occurs in the window.\<close>

lemma getMoodFrequency_ids:
  "distinct (map fr_id (getMoodFrequency tz tzl now logs uid days)) \<and>
   set (map fr_id (getMoodFrequency tz tzl now logs uid days)) =
     ml_mood ` set (match_window uid (startDate tz tzl now days) logs)"
proof -
  let ?g = "group_by_mood (match_window uid (startDate tz tzl now days) logs)"
  have d: "distinct (map fr_id ?g)" by (simp add: group_by_mood_ids)
  have s: "set (map fr_id ?g) = ml_mood ` set (match_window uid (startDate tz tzl now days) logs)"
    by (simp only: group_by_mood_ids set_remdups set_map)
  from d have "distinct (map fr_id (sort_key (\<lambda>r. - int (fr_count r)) ?g))"
    by (simp add: distinct_map)
  moreover from s have "set (map fr_id (sort_key (\<lambda>r. - int (fr_count r)) ?g)) =
      ml_mood ` set (match_window uid (startDate tz tzl now days) logs)"
    by simp
  ultimately show ?thesis by (simp only: getMoodFrequency_def)
qed

lemma getMoodFrequency_rows:
  assumes "r \<in> set (getMoodFrequency tz tzl now logs uid days)"
  shows "fr_count r = length (filter (\<lambda>d. ml_mood d = fr_id r)
                                (match_window uid (startDate tz tzl now days) logs)) \<and>
         0 < fr_count r \<and>
         fr_avgIntensity r =
           round_double
             (of_int (sum_list (map ml_intensity (filter (\<lambda>d. ml_mood d = fr_id r)
                                (match_window uid (startDate tz tzl now days) logs)))) /
              of_nat (fr_count r))"
proof -
  let ?w = "match_window uid (startDate tz tzl now days) logs"
  from assms have "r \<in> set (group_by_mood ?w)" by (simp add: getMoodFrequency_def)
  then obtain m where m: "m \<in> ml_mood ` set ?w"
    and r: "r = \<lparr> fr_id = m, fr_count = length (filter (\<lambda>d. ml_mood d = m) ?w),
                   fr_avgIntensity = round_double
                     (of_int (sum_list (map ml_intensity (filter (\<lambda>d. ml_mood d = m) ?w)))
                      / of_nat (length (filter (\<lambda>d. ml_mood d = m) ?w))) \<rparr>"
    by (auto simp: group_by_mood_def Let_def)
  from m have "filter (\<lambda>d. ml_mood d = m) ?w \<noteq> []"
    by (auto simp: filter_empty_conv)
  with m r show ?thesis by simp
qed

lemma getMoodFrequency_sorted:
  "sorted (map (\<lambda>r. - int (fr_count r)) (getMoodFrequency tz tzl now logs uid days))"
  unfolding getMoodFrequency_def by (rule sorted_sort_key)

lemma getMoodFrequency_empty:
  "match_window uid (startDate tz tzl now days) logs = [] \<Longrightarrow>
   getMoodFrequency tz tzl now logs uid days = []"
  by (simp add: getMoodFrequency_def group_by_mood_def)

lemma percentage_sum:
  assumes "0 < sum_list (map fr_count rows)"
  shows "(\<Sum>r\<leftarrow>rows. (of_nat (fr_count r) / of_nat (sum_list (map fr_count rows))) * 100) = (100::rat)"
proof -
  let ?T = "of_nat (sum_list (map fr_count rows)) :: rat"
  from assms have "sum_list (map fr_count rows) \<noteq> 0" by (rule gr_implies_not0)
  then have T: "?T \<noteq> 0" by (simp only: of_nat_eq_0_iff not_False_eq_True)
  have "(\<Sum>r\<leftarrow>rows. (of_nat (fr_count r) / ?T) * 100) =
        (\<Sum>r\<leftarrow>rows. of_nat (fr_count r) * (100 / ?T))"
    by (rule arg_cong [where f = sum_list]) simp
  also have "\<dots> = (\<Sum>r\<leftarrow>rows. of_nat (fr_count r)) * (100 / ?T)"
    by (rule sum_list_mult_const)
  also have "(\<Sum>r\<leftarrow>rows. (of_nat (fr_count r) :: rat)) = ?T"
    by (induction rows) simp_all
  finally show ?thesis using T by simp
qed

text \<open>The reported percentages add up to 100 but for the rounding of each.\<close>

lemma percentage_sum_rounded:
  assumes pos: "0 < sum_list (map fr_count rows)"
  shows "\<bar>(\<Sum>r\<leftarrow>rows. round_double
             (round_double (of_nat (fr_count r) / of_nat (sum_list (map fr_count rows))) * 100))
          - 100\<bar> \<le> 100 / 2 ^ 51"
proof -
  let ?T = "of_nat (sum_list (map fr_count rows)) :: rat"
  let ?f = "\<lambda>r. round_double (round_double (of_nat (fr_count r) / ?T) * 100)"
  let ?g = "\<lambda>r. of_nat (fr_count r) / ?T * 100"
  let ?h = "\<lambda>r. of_nat (fr_count r) / ?T * 100 / 2 ^ 51"
  have "\<forall>r\<in>set rows. \<bar>?f r - ?g r\<bar> \<le> ?h r"
  proof
    fix r
    have "(0::rat) \<le> of_nat (fr_count r) / ?T" by simp
    then show "\<bar>?f r - ?g r\<bar> \<le> ?h r" by (rule percentage_error)
  qed
  then have "\<bar>sum_list (map ?f rows) - sum_list (map ?g rows)\<bar> \<le> sum_list (map ?h rows)"
    by (rule sum_list_abs_diff)
  moreover have g: "sum_list (map ?g rows) = 100" by (rule percentage_sum [OF pos])
  moreover have "sum_list (map ?h rows) = sum_list (map ?g rows) / 2 ^ 51"
    by (rule sum_list_divide_const)
  ultimately show ?thesis by simp
qed

subsection \<open>The example\<close>

lemma round_double_examples:
  "round_double 7 = 7"
  "round_double 3 = 3"
  "round_double (round_double (2 / 3) * 100) = 4691249611844266 / 2 ^ 46"
  "round_double (round_double (1 / 3) * 100) = 4691249611844266 / 2 ^ 47"
  by code_simp+

lemma example_window:
  "window_logs (\<lambda>_. 0) (\<lambda>_. 0) 120000000 example_logs 7 None = example_logs"
  "window_logs (\<lambda>_. 0) (\<lambda>_. 0) 120000000 example_logs 8 None = []"
  by (simp_all add: window_logs_def match_window_def startDate_def example_logs_def)

lemma example_frequency:
  "get_frequency (\<lambda>_. 0) (\<lambda>_. 0) 120000000 example_logs 7 None =
     Success 200 [\<lparr> fr_id = ''happy'', fr_count = 2, fr_avgIntensity = 7 \<rparr>,
                  \<lparr> fr_id = ''sad'', fr_count = 1, fr_avgIntensity = 3 \<rparr>]"
  "get_frequency (\<lambda>_. 0) (\<lambda>_. 0) 120000000 example_logs 8 None = Success 200 []"
  by (simp_all add: get_frequency_def getMoodFrequency_def group_by_mood_def match_window_def
      startDate_def example_logs_def Let_def round_double_examples)

lemma example_trends:
  "get_mood_trends (\<lambda>_. 0) (\<lambda>_. 0) 120000000 example_logs 7 None None =
     Success 200 \<lparr> moodDistribution =
        [\<lparr> dr_id = ''happy'', dr_count = 2, dr_avgIntensity = 7,
           dr_percentage = 4691249611844266 / 2 ^ 46 \<rparr>,
         \<lparr> dr_id = ''sad'', dr_count = 1, dr_avgIntensity = 3,
           dr_percentage = 4691249611844266 / 2 ^ 47 \<rparr>],
        totalEntries = 3 \<rparr>"
  "get_mood_trends (\<lambda>_. 0) (\<lambda>_. 0) 120000000 example_logs 8 None None =
     Success 200 \<lparr> moodDistribution = [], totalEntries = 0 \<rparr>"
  by (simp_all add: get_mood_trends_def getMoodFrequency_def group_by_mood_def match_window_def
      startDate_def example_logs_def Let_def round_double_examples)

subsection \<open>Frequencies and percentages\<close>

text \<open>
  C5 does not hold as stated. For user 7 of the example, \<open>GET /api/moods/frequency\<close>
  answers one row for each mood with its count and average intensity, and no percentage;
  for user 8, who has no log, it answers the empty list, not a summary of zeros.
\<close>

theorem C5_frequency_counterexample:
  "get_frequency (\<lambda>_. 0) (\<lambda>_. 0) 120000000 example_logs 7 None =
     Success 200 [\<lparr> fr_id = ''happy'', fr_count = 2, fr_avgIntensity = 7 \<rparr>,
                  \<lparr> fr_id = ''sad'', fr_count = 1, fr_avgIntensity = 3 \<rparr>] \<and>
   get_frequency (\<lambda>_. 0) (\<lambda>_. 0) 120000000 example_logs 8 None = Success 200 []"
  by (simp add: example_frequency)

lemma get_frequency_rows:
  assumes v: "case days of None \<Rightarrow> True | Some d \<Rightarrow> 1 \<le> d \<and> d \<le> 365"
  shows "\<exists>rows. get_frequency tz tzl now logs uid days = Success 200 rows \<and>
         distinct (map fr_id rows) \<and>
         set (map fr_id rows) = ml_mood ` set (window_logs tz tzl now logs uid days) \<and>
         (\<forall>r\<in>set rows.
            fr_count r = length (filter (\<lambda>d. ml_mood d = fr_id r)
                                   (window_logs tz tzl now logs uid days)) \<and>
            0 < fr_count r \<and>
            fr_avgIntensity r =
              round_double
                (of_int (sum_list (map ml_intensity (filter (\<lambda>d. ml_mood d = fr_id r)
                                   (window_logs tz tzl now logs uid days)))) /
                 of_nat (fr_count r))) \<and>
         sum_list (map fr_count rows) = length (window_logs tz tzl now logs uid days) \<and>
         sorted (map (\<lambda>r. - int (fr_count r)) rows) \<and>
         (window_logs tz tzl now logs uid days = [] \<longrightarrow> rows = [])"
proof -
  let ?n = "case days of None \<Rightarrow> 30 | Some d \<Rightarrow> d"
  let ?rows = "getMoodFrequency tz tzl now logs uid ?n"
  from v have res: "get_frequency tz tzl now logs uid days = Success 200 ?rows"
    by (simp add: get_frequency_def)
  have rows: "\<forall>r\<in>set ?rows.
      fr_count r = length (filter (\<lambda>d. ml_mood d = fr_id r)
                             (window_logs tz tzl now logs uid days)) \<and>
      0 < fr_count r \<and>
      fr_avgIntensity r =
        round_double
          (of_int (sum_list (map ml_intensity (filter (\<lambda>d. ml_mood d = fr_id r)
                             (window_logs tz tzl now logs uid days)))) /
           of_nat (fr_count r))"
    unfolding window_logs_def by (rule ballI) (rule getMoodFrequency_rows)
  have emp: "window_logs tz tzl now logs uid days = [] \<longrightarrow> ?rows = []"
    by (simp add: window_logs_def getMoodFrequency_empty)
  have ids: "distinct (map fr_id ?rows) \<and>
      set (map fr_id ?rows) = ml_mood ` set (window_logs tz tzl now logs uid days)"
    unfolding window_logs_def by (rule getMoodFrequency_ids)
  have total: "sum_list (map fr_count ?rows) = length (window_logs tz tzl now logs uid days)"
    unfolding window_logs_def by (rule getMoodFrequency_total)
  from res rows emp ids total getMoodFrequency_sorted [of tz tzl now logs uid ?n]
  show ?thesis by blast
qed

lemma get_mood_trends_rows:
  assumes v: "(case days of None \<Rightarrow> True | Some d \<Rightarrow> 7 \<le> d \<and> d \<le> 365) \<and>
    (case groupBy of None \<Rightarrow> True | Some g \<Rightarrow> g \<in> set groupBy_enum)"
  shows "\<exists>t. get_mood_trends tz tzl now logs uid days groupBy = Success 200 t \<and>
         get_frequency tz tzl now logs uid days =
           Success 200 (map (\<lambda>r. \<lparr> fr_id = dr_id r, fr_count = dr_count r,
                                    fr_avgIntensity = dr_avgIntensity r \<rparr>) (moodDistribution t)) \<and>
         totalEntries t = length (window_logs tz tzl now logs uid days) \<and>
         (\<forall>r\<in>set (moodDistribution t).
            dr_percentage r =
              round_double (round_double (of_nat (dr_count r) / of_nat (totalEntries t)) * 100) \<and>
            \<bar>dr_percentage r - of_nat (dr_count r) / of_nat (totalEntries t) * 100\<bar>
              \<le> of_nat (dr_count r) / of_nat (totalEntries t) * 100 / 2 ^ 51) \<and>
         (window_logs tz tzl now logs uid days \<noteq> [] \<longrightarrow>
            \<bar>sum_list (map dr_percentage (moodDistribution t)) - 100\<bar> \<le> 100 / 2 ^ 51) \<and>
         (window_logs tz tzl now logs uid days = [] \<longrightarrow>
            moodDistribution t = [] \<and> totalEntries t = 0)"
proof -
  let ?n = "case days of None \<Rightarrow> 30 | Some d \<Rightarrow> d"
  let ?w = "window_logs tz tzl now logs uid days"
  let ?rows = "getMoodFrequency tz tzl now logs uid ?n"
  let ?T = "sum_list (map fr_count ?rows)"
  let ?p = "\<lambda>mood. if ?T > 0
      then round_double (round_double (of_nat (fr_count mood) / of_nat ?T) * 100) else 0"
  let ?t = "\<lparr> moodDistribution =
               map (\<lambda>mood. \<lparr> dr_id = fr_id mood, dr_count = fr_count mood,
                             dr_avgIntensity = fr_avgIntensity mood,
                             dr_percentage = ?p mood \<rparr>) ?rows,
             totalEntries = ?T \<rparr>"
  from v have res: "get_mood_trends tz tzl now logs uid days groupBy = Success 200 ?t"
    by (simp add: get_mood_trends_def Let_def)
  from v have v1: "case days of None \<Rightarrow> True | Some d \<Rightarrow> 1 \<le> d \<and> d \<le> 365"
    by (auto split: option.splits)
  have T: "?T = length ?w"
    unfolding window_logs_def by (rule getMoodFrequency_total)
  have "(\<lambda>x. \<lparr> fr_id = fr_id x, fr_count = fr_count x,
                 fr_avgIntensity = fr_avgIntensity x \<rparr>) = (\<lambda>x. x)"
    by (rule ext) simp
  then have freq: "get_frequency tz tzl now logs uid days =
      Success 200 (map (\<lambda>r. \<lparr> fr_id = dr_id r, fr_count = dr_count r,
                               fr_avgIntensity = dr_avgIntensity r \<rparr>) (moodDistribution ?t))"
    using v1 by (simp add: get_frequency_def comp_def)
  have total: "totalEntries ?t = length ?w" using T by simp
  have each: "\<forall>r\<in>set (moodDistribution ?t).
      dr_percentage r =
        round_double (round_double (of_nat (dr_count r) / of_nat (totalEntries ?t)) * 100) \<and>
      \<bar>dr_percentage r - of_nat (dr_count r) / of_nat (totalEntries ?t) * 100\<bar>
        \<le> of_nat (dr_count r) / of_nat (totalEntries ?t) * 100 / 2 ^ 51"
  proof
    fix r
    assume "r \<in> set (moodDistribution ?t)"
    then obtain mood where mood: "mood \<in> set ?rows"
      and r: "dr_count r = fr_count mood" "dr_percentage r = ?p mood"
      by auto
    from mood have "0 < fr_count mood" using getMoodFrequency_rows by blast
    also have "fr_count mood \<le> ?T" using mood by (simp add: member_le_sum_list)
    finally have pos: "0 < ?T" .
    have "(0::rat) \<le> of_nat (fr_count mood) / of_nat ?T" by simp
    from percentage_error [OF this] pos r
    show "dr_percentage r =
        round_double (round_double (of_nat (dr_count r) / of_nat (totalEntries ?t)) * 100) \<and>
      \<bar>dr_percentage r - of_nat (dr_count r) / of_nat (totalEntries ?t) * 100\<bar>
        \<le> of_nat (dr_count r) / of_nat (totalEntries ?t) * 100 / 2 ^ 51"
      by simp
  qed
  have nonempty: "?w \<noteq> [] \<longrightarrow>
      \<bar>sum_list (map dr_percentage (moodDistribution ?t)) - 100\<bar> \<le> 100 / 2 ^ 51"
  proof
    assume "?w \<noteq> []"
    then have pos: "0 < ?T" using T by simp
    then have "sum_list (map dr_percentage (moodDistribution ?t)) =
          (\<Sum>r\<leftarrow>?rows. round_double (round_double (of_nat (fr_count r) / of_nat ?T) * 100))"
      by (simp add: comp_def)
    with percentage_sum_rounded [OF pos]
    show "\<bar>sum_list (map dr_percentage (moodDistribution ?t)) - 100\<bar> \<le> 100 / 2 ^ 51"
      by simp
  qed
  have empty: "?w = [] \<longrightarrow> moodDistribution ?t = [] \<and> totalEntries ?t = 0"
    by (simp add: window_logs_def getMoodFrequency_empty)
  from res freq total each nonempty empty show ?thesis by blast
qed

text \<open>
  C5, amended. \<open>GET /api/moods/frequency\<close> with a valid \<open>days\<close> answers, for the user's
  logs in the window, one row for each mood that occurs, with its count (positive) and
  its average intensity (the sum of the intensities divided by the count, as a double),
  by count descending, and no percentage; the counts add up to the number of logs in
  the window, and for an empty window the answer is the empty list (a success, not an
  error). The percentage shares are those of \<open>GET /api/analytics/mood-trends\<close>, which
  reports the same rows and for each the double \<open>(count / totalEntries) * 100\<close>, within
  a relative error of \<open>2 ^ -51\<close> of the exact share; the reported percentages add up to
  100 up to rounding (within \<open>100 / 2 ^ 51\<close>) when the window is not empty, and for an
  empty window the distribution is empty and \<open>totalEntries\<close> is 0.
\<close>

theorem C5_frequency_and_percentages:
  "((case days of None \<Rightarrow> True | Some d \<Rightarrow> 1 \<le> d \<and> d \<le> 365) \<longrightarrow>
      (\<exists>rows. get_frequency tz tzl now logs uid days = Success 200 rows \<and>
         distinct (map fr_id rows) \<and>
         set (map fr_id rows) = ml_mood ` set (window_logs tz tzl now logs uid days) \<and>
         (\<forall>r\<in>set rows.
            fr_count r = length (filter (\<lambda>d. ml_mood d = fr_id r)
                                   (window_logs tz tzl now logs uid days)) \<and>
            0 < fr_count r \<and>
            fr_avgIntensity r =
              round_double
                (of_int (sum_list (map ml_intensity (filter (\<lambda>d. ml_mood d = fr_id r)
                                   (window_logs tz tzl now logs uid days)))) /
                 of_nat (fr_count r))) \<and>
         sum_list (map fr_count rows) = length (window_logs tz tzl now logs uid days) \<and>
         sorted (map (\<lambda>r. - int (fr_count r)) rows) \<and>
         (window_logs tz tzl now logs uid days = [] \<longrightarrow> rows = []))) \<and>
   ((case days of None \<Rightarrow> True | Some d \<Rightarrow> 7 \<le> d \<and> d \<le> 365) \<and>
    (case groupBy of None \<Rightarrow> True | Some g \<Rightarrow> g \<in> set groupBy_enum) \<longrightarrow>
      (\<exists>t. get_mood_trends tz tzl now logs uid days groupBy = Success 200 t \<and>
         get_frequency tz tzl now logs uid days =
           Success 200 (map (\<lambda>r. \<lparr> fr_id = dr_id r, fr_count = dr_count r,
                                    fr_avgIntensity = dr_avgIntensity r \<rparr>) (moodDistribution t)) \<and>
         totalEntries t = length (window_logs tz tzl now logs uid days) \<and>
         (\<forall>r\<in>set (moodDistribution t).
            dr_percentage r =
              round_double (round_double (of_nat (dr_count r) / of_nat (totalEntries t)) * 100) \<and>
            \<bar>dr_percentage r - of_nat (dr_count r) / of_nat (totalEntries t) * 100\<bar>
              \<le> of_nat (dr_count r) / of_nat (totalEntries t) * 100 / 2 ^ 51) \<and>
         (window_logs tz tzl now logs uid days \<noteq> [] \<longrightarrow>
            \<bar>sum_list (map dr_percentage (moodDistribution t)) - 100\<bar> \<le> 100 / 2 ^ 51) \<and>
         (window_logs tz tzl now logs uid days = [] \<longrightarrow>
            moodDistribution t = [] \<and> totalEntries t = 0)))"
  using get_frequency_rows [of days tz tzl now logs uid]
    get_mood_trends_rows [of days groupBy tz tzl now logs uid]
  by blast

theorem C5_frequency_and_percentages_witness:
  "window_logs (\<lambda>_. 0) (\<lambda>_. 0) 120000000 example_logs 7 None = example_logs \<and>
   get_frequency (\<lambda>_. 0) (\<lambda>_. 0) 120000000 example_logs 7 None =
     Success 200 [\<lparr> fr_id = ''happy'', fr_count = 2, fr_avgIntensity = 7 \<rparr>,
                  \<lparr> fr_id = ''sad'', fr_count = 1, fr_avgIntensity = 3 \<rparr>] \<and>
   get_mood_trends (\<lambda>_. 0) (\<lambda>_. 0) 120000000 example_logs 7 None None =
     Success 200 \<lparr> moodDistribution =
        [\<lparr> dr_id = ''happy'', dr_count = 2, dr_avgIntensity = 7,
           dr_percentage = 4691249611844266 / 2 ^ 46 \<rparr>,
         \<lparr> dr_id = ''sad'', dr_count = 1, dr_avgIntensity = 3,
           dr_percentage = 4691249611844266 / 2 ^ 47 \<rparr>],
        totalEntries = 3 \<rparr> \<and>
   (4691249611844266 / 2 ^ 46 + 4691249611844266 / 2 ^ 47 :: rat) = 100 - 1 / 2 ^ 46 \<and>
   \<bar>(4691249611844266 / 2 ^ 46 + 4691249611844266 / 2 ^ 47 :: rat) - 100\<bar> \<le> 100 / 2 ^ 51 \<and>
   window_logs (\<lambda>_. 0) (\<lambda>_. 0) 120000000 example_logs 8 None = [] \<and>
   get_frequency (\<lambda>_. 0) (\<lambda>_. 0) 120000000 example_logs 8 None = Success 200 [] \<and>
   get_mood_trends (\<lambda>_. 0) (\<lambda>_. 0) 120000000 example_logs 8 None None =
     Success 200 \<lparr> moodDistribution = [], totalEntries = 0 \<rparr>"
proof -
  have ne: "example_logs \<noteq> []" by (simp add: example_logs_def)
  from C5_frequency_and_percentages [of None "\<lambda>_. 0" "\<lambda>_. 0" 120000000 example_logs 7 None]
    example_trends(1) example_window(1) ne
  have "\<bar>(4691249611844266 / 2 ^ 46 + 4691249611844266 / 2 ^ 47 :: rat) - 100\<bar> \<le> 100 / 2 ^ 51"
    by simp
  moreover have "(4691249611844266 / 2 ^ 46 + 4691249611844266 / 2 ^ 47 :: rat) = 100 - 1 / 2 ^ 46"
    by simp
  ultimately show ?thesis
    using example_window example_frequency example_trends by simp
qed

end
